theory Spec2Isabelle
  imports Main "HOL-Library.Sublist"
begin

section \<open>JavaScript strings\<close>

text \<open>
  A JavaScript string is modelled as a \<^typ>\<open>string\<close>: a list of code units, each below
  256 (the Latin-1 range U+0000 .. U+00FF). The string operations of the runtime that the
  services use are written out on that range.
\<close>

definition code_unit :: "char \<Rightarrow> nat" where
  "code_unit c = of_char c"

text \<open>\<open>String.prototype.trim\<close> removes white space and line terminators from both ends;
  below U+0100 these are TAB, LF, VT, FF, CR, SPACE and NBSP.\<close>

definition is_white_space :: "char \<Rightarrow> bool" where
  "is_white_space c = (code_unit c \<in> {9, 10, 11, 12, 13, 32, 160})"

definition trim :: "string \<Rightarrow> string" where
  "trim s = rev (dropWhile is_white_space (rev (dropWhile is_white_space s)))"

text \<open>\<open>String.prototype.toLowerCase\<close>: below U+0100 the upper-case letters are A .. Z and
  U+00C0 .. U+00DE without U+00D7; the lower-case letter is 32 above, that is, bit 5 set.\<close>

definition is_upper_case :: "char \<Rightarrow> bool" where
  "is_upper_case c =
     (let n = code_unit c
      in (65 \<le> n \<and> n \<le> 90) \<or> (192 \<le> n \<and> n \<le> 222 \<and> n \<noteq> 215))"

fun lower_case_char :: "char \<Rightarrow> char" where
  "lower_case_char (Char b0 b1 b2 b3 b4 b5 b6 b7) =
     (if is_upper_case (Char b0 b1 b2 b3 b4 b5 b6 b7)
      then Char b0 b1 b2 b3 b4 True b6 b7
      else Char b0 b1 b2 b3 b4 b5 b6 b7)"

definition toLowerCase :: "string \<Rightarrow> string" where
  "toLowerCase s = map lower_case_char s"

text \<open>\<open>s.includes(t)\<close>: \<open>t\<close> occurs in \<open>s\<close> as a contiguous run.\<close>

definition str_includes :: "string \<Rightarrow> string \<Rightarrow> bool" where
  "str_includes s t = sublist t s"

text \<open>\<open>s.split(c)\<close> for a one-character separator: never the empty array.\<close>

fun split_on :: "char \<Rightarrow> string \<Rightarrow> string list" where
  "split_on c [] = [[]]"
| "split_on c (x # xs) =
     (if x = c then [] # split_on c xs
      else (case split_on c xs of
              [] \<Rightarrow> [[x]]
            | l # ls \<Rightarrow> (x # l) # ls))"

text \<open>\<open>xs.join(sep)\<close> on an array of strings.\<close>

fun join :: "string \<Rightarrow> string list \<Rightarrow> string" where
  "join sep [] = []"
| "join sep [x] = x"
| "join sep (x # y # ys) = x @ sep @ join sep (y # ys)"

text \<open>\<open>s.slice(0, n)\<close> for \<open>n \<ge> 0\<close>: the first \<open>n\<close> code units, or all of \<open>s\<close>.\<close>

definition slice0 :: "nat \<Rightarrow> string \<Rightarrow> string" where
  "slice0 n s = take n s"

text \<open>A JavaScript \<open>Error\<close> carries its message; a function that can throw returns
  \<open>js_error + 'a\<close>.\<close>

datatype js_error = Error string

fun message :: "js_error \<Rightarrow> string" where
  "message (Error m) = m"


section \<open>PDFProcessingService.convertTextToMarkdown\<close>

text \<open>The regular expression \<open>/method(s|ology)?/\<close> matches a string when one of the words
  of its language occurs in it.\<close>

definition match_method :: "string \<Rightarrow> bool" where
  "match_method s =
     (str_includes s ''methods'' \<or> str_includes s ''methodology'' \<or> str_includes s ''method'')"

text \<open>One iteration of the loop over \<open>lines\<close>; the state is \<open>(markdown, currentSection)\<close>.\<close>

definition markdown_step :: "string list \<Rightarrow> nat \<Rightarrow> string \<times> string \<Rightarrow> string \<times> string" where
  "markdown_step lines i st =
     (let markdown = fst st;
          currentSection = snd st;
          line = lines ! i;
          lowerLine = toLowerCase line
      in if str_includes lowerLine ''abstract''
           then (markdown @ ''\<newline>## Abstract\<newline>\<newline>'', ''abstract'')
         else if str_includes lowerLine ''introduction''
           then (markdown @ ''\<newline>## Introduction\<newline>\<newline>'', ''introduction'')
         else if match_method lowerLine
           then (markdown @ ''\<newline>## Methods\<newline>\<newline>'', ''methods'')
         else if str_includes lowerLine ''result''
           then (markdown @ ''\<newline>## Results\<newline>\<newline>'', ''results'')
         else if str_includes lowerLine ''discussion''
           then (markdown @ ''\<newline>## Discussion\<newline>\<newline>'', ''discussion'')
         else if str_includes lowerLine ''conclusion''
           then (markdown @ ''\<newline>## Conclusion\<newline>\<newline>'', ''conclusion'')
         else if i = 0
           then (markdown @ ''# '' @ line @ ''\<newline>\<newline>'', currentSection)
         else (markdown @ line @ ''\<newline>'', currentSection))"

definition text_lines :: "string \<Rightarrow> string list" where
  "text_lines text = filter (\<lambda>l. l \<noteq> []) (map trim (split_on CHR 0x0A text))"

definition convertTextToMarkdown :: "string \<Rightarrow> string" where
  "convertTextToMarkdown text =
     (let lines = text_lines text
      in fst (fold (markdown_step lines) [0..<length lines] ([], [])))"


section \<open>PDFProcessingService.extractTextFromPDF\<close>

text \<open>
  The text extraction collaborator (pdf.js) is given by what it answers: \<open>getDocument\<close>
  rejects or yields the pages \<open>1 .. numPages\<close>; for each page \<open>getPage\<close> or
  \<open>getTextContent\<close> rejects, or the page yields the \<open>str\<close> of its text items.
\<close>

type_synonym pdf_page = "js_error + string list"
type_synonym pdf_document = "js_error + pdf_page list"

text \<open>The loop over the pages; a page that fails is skipped.\<close>

fun extract_pages :: "pdf_page list \<Rightarrow> string \<Rightarrow> string" where
  "extract_pages [] fullText = fullText"
| "extract_pages (Inl pageError # ps) fullText = extract_pages ps fullText"
| "extract_pages (Inr items # ps) fullText =
     extract_pages ps (fullText @ join '' '' items @ ''\<newline>\<newline>'')"

text \<open>The body of the \<open>try\<close> block, then the \<open>catch\<close> that wraps every error.\<close>

definition extractTextFromPDF_try :: "pdf_document \<Rightarrow> js_error + string" where
  "extractTextFromPDF_try doc =
     (case doc of
        Inl e \<Rightarrow> Inl e
      | Inr pages \<Rightarrow>
          (let fullText = extract_pages pages []
           in if fullText = [] then Inl (Error ''No text content found in PDF'')
              else Inr (trim fullText)))"

definition extractTextFromPDF :: "pdf_document \<Rightarrow> js_error + string" where
  "extractTextFromPDF doc =
     (case extractTextFromPDF_try doc of
        Inl e \<Rightarrow> Inl (Error (''Could not extract text from PDF: '' @ message e))
      | Inr t \<Rightarrow> Inr t)"

text \<open>The error of the taxonomy for a document without text.\<close>

definition NoTextContent :: js_error where
  "NoTextContent = Error ''Could not extract text from PDF: No text content found in PDF''"


section \<open>PDFProcessingService.analyzeWithAI\<close>

text \<open>
  Values decoded from JSON. Numbers are restricted to the integers. An object is a map
  from property names to values; a property that is absent (\<open>undefined\<close>) is \<open>None\<close>,
  which differs from a property that is \<open>null\<close>.
\<close>

datatype js_value =
    JNull
  | JBool bool
  | JNum int
  | JStr string
  | JArr "js_value list"
  | JObj "(string \<times> js_value) list"

type_synonym js_object = "string \<rightharpoonup> js_value"

text \<open>Truthiness, as \<open>||\<close> and \<open>if\<close> test it.\<close>

fun truthy :: "js_value \<Rightarrow> bool" where
  "truthy JNull = False"
| "truthy (JBool b) = b"
| "truthy (JNum n) = (n \<noteq> 0)"
| "truthy (JStr s) = (s \<noteq> [])"
| "truthy (JArr xs) = True"
| "truthy (JObj kvs) = True"

text \<open>\<open>a || b\<close> where \<open>a\<close> reads a property that may be absent.\<close>

definition js_or :: "js_value option \<Rightarrow> js_value \<Rightarrow> js_value" where
  "js_or a b = (case a of None \<Rightarrow> b | Some v \<Rightarrow> if truthy v then v else b)"

text \<open>
  What the services take from the JavaScript runtime: \<open>JSON.parse\<close> on a text that
  starts with a brace (\<open>None\<close> when it throws, the decoded object otherwise),
  \<open>new Date().getFullYear()\<close>, and \<open>String.prototype.normalize('NFKD')\<close>.
\<close>

record runtime =
  JSON_parse :: "string \<Rightarrow> js_object option"
  getFullYear :: int
  normalize_NFKD :: "string \<Rightarrow> string"

text \<open>\<open>response.match(/\{[\s\S]*\}/)\<close>: the match is greedy, from the first opening brace
  to the last closing brace after it.\<close>

definition match_braces :: "string \<Rightarrow> string option" where
  "match_braces s =
     (let from_open = dropWhile (\<lambda>c. c \<noteq> CHR ''{'') s
      in if from_open = [] then None
         else (let inner = rev (dropWhile (\<lambda>c. c \<noteq> CHR ''}'') (rev (tl from_open)))
               in if inner = [] then None else Some (CHR ''{'' # inner)))"

text \<open>The inner \<open>try\<close> around each response: no match or a \<open>JSON.parse\<close> that throws
  leaves the partial object empty.\<close>

definition parse_partial :: "runtime \<Rightarrow> string \<Rightarrow> js_object" where
  "parse_partial rt response =
     (case match_braces response of
        None \<Rightarrow> Map.empty
      | Some span \<Rightarrow>
          (case JSON_parse rt span of
             None \<Rightarrow> Map.empty
           | Some obj \<Rightarrow> obj))"

definition initialPrompt :: "string \<Rightarrow> string" where
  \<open>initialPrompt initialChunk =
     ''Analyze this academic paper text and extract the following metadata. Return ONLY a JSON object with these fields (omit any fields you don't find):\<newline>'' @
     ''{\<newline>'' @
     ''  "title": "paper title",\<newline>'' @
     ''  "authors": "author names",\<newline>'' @
     ''  "doi": "DOI if present",\<newline>'' @
     ''  "year": "publication year (as a number)"\<newline>'' @
     ''}\<newline>'' @
     ''\<newline>'' @
     ''Important:\<newline>'' @
     ''- Look for the title at the beginning of the text\<newline>'' @
     ''- Authors are usually listed after the title\<newline>'' @
     ''- DOI might be in the format "doi: 10.xxxx/xxxxx" or "https://doi.org/10.xxxx/xxxxx"\<newline>'' @
     ''- Year is usually a 4-digit number near the beginning of the paper\<newline>'' @
     ''\<newline>'' @
     ''Text:\<newline>'' @
     initialChunk\<close>

definition contentPrompt :: "string \<Rightarrow> string" where
  \<open>contentPrompt contentChunk =
     ''Analyze this academic paper excerpt and extract the following information. Return ONLY a JSON object with these fields (omit any fields you don't find):\<newline>'' @
     ''{\<newline>'' @
     ''  "background": "brief summary of the paper's background and context",\<newline>'' @
     ''  "research_question": "main research questions or objectives",\<newline>'' @
     ''  "major_findings": "key findings and results",\<newline>'' @
     ''  "suggestions": "future research suggestions or implications"\<newline>'' @
     ''}\<newline>'' @
     ''\<newline>'' @
     ''Important:\<newline>'' @
     ''- Background: Look for sections like "Introduction", "Background", or "Abstract"\<newline>'' @
     ''- Research Question: Look for explicit questions or objectives\<newline>'' @
     ''- Major Findings: Look for results, conclusions, or key findings\<newline>'' @
     ''- Suggestions: Look for future work, implications, or recommendations\<newline>'' @
     ''\<newline>'' @
     ''Text:\<newline>'' @
     contentChunk\<close>

text \<open>
  \<open>AIService.generateCompletion(prompt)\<close> as the pipeline sees it: a call in a world
  \<open>'w\<close> that throws or returns the completion, and leaves a new world.
\<close>

type_synonym 'w completion = "'w \<Rightarrow> string \<Rightarrow> (js_error + string) \<times> 'w"

text \<open>The merge of the two partial objects: \<open>{...metadata, ...content, full_text: markdown}\<close>.\<close>

definition merge_result :: "js_object \<Rightarrow> js_object \<Rightarrow> string \<Rightarrow> js_object" where
  "merge_result metadata content markdown =
     (metadata ++ content)(''full_text'' \<mapsto> JStr markdown)"

text \<open>The record of the \<open>catch\<close> block.\<close>

definition fallback_record :: "runtime \<Rightarrow> string \<Rightarrow> js_object" where
  "fallback_record rt markdown =
     [''title'' \<mapsto> JStr [], ''authors'' \<mapsto> JStr ''Unknown'',
      ''year'' \<mapsto> JNum (getFullYear rt), ''full_text'' \<mapsto> JStr markdown]"

text \<open>The body of the outer \<open>try\<close>: two completion calls in sequence; an error of either
  one leaves the block.\<close>

definition analyzeWithAI_try ::
  "runtime \<Rightarrow> 'w completion \<Rightarrow> 'w \<Rightarrow> string \<Rightarrow> (js_error + js_object) \<times> 'w" where
  "analyzeWithAI_try rt generateCompletion w markdown =
     (let initialChunk = slice0 3000 markdown
      in case generateCompletion w (initialPrompt initialChunk) of
           (Inl e, w1) \<Rightarrow> (Inl e, w1)
         | (Inr metadataResponse, w1) \<Rightarrow>
             (let metadata = parse_partial rt metadataResponse;
                  contentChunk = slice0 6000 markdown
              in case generateCompletion w1 (contentPrompt contentChunk) of
                   (Inl e, w2) \<Rightarrow> (Inl e, w2)
                 | (Inr contentResponse, w2) \<Rightarrow>
                     (let content = parse_partial rt contentResponse
                      in (Inr (merge_result metadata content markdown), w2))))"

definition analyzeWithAI ::
  "runtime \<Rightarrow> 'w completion \<Rightarrow> 'w \<Rightarrow> string \<Rightarrow> (js_error + js_object) \<times> 'w" where
  "analyzeWithAI rt generateCompletion w markdown =
     (case analyzeWithAI_try rt generateCompletion w markdown of
        (Inl e, w') \<Rightarrow> (Inr (fallback_record rt markdown), w')
      | (Inr result, w') \<Rightarrow> (Inr result, w'))"


section \<open>PDFProcessingService.processPDF\<close>

record pdf_file =
  file_name :: string
  file_pdf :: pdf_document

text \<open>\<open>name.replace(/\.pdf$/i, '')\<close>: a final \<open>.pdf\<close> in either case is cut.\<close>

definition strip_pdf_suffix :: "string \<Rightarrow> string" where
  "strip_pdf_suffix name =
     (let n = length name
      in if 4 \<le> n \<and> name ! (n - 4) = CHR ''.''
            \<and> name ! (n - 3) \<in> {CHR ''p'', CHR ''P''}
            \<and> name ! (n - 2) \<in> {CHR ''d'', CHR ''D''}
            \<and> name ! (n - 1) \<in> {CHR ''f'', CHR ''F''}
         then take (n - 4) name
         else name)"

text \<open>The progress callback only reports to the user interface and is left out. An error
  of the extraction is thrown on; the analysis is run on the markdown otherwise.\<close>

definition processPDF ::
  "runtime \<Rightarrow> 'w completion \<Rightarrow> 'w \<Rightarrow> pdf_file \<Rightarrow> (js_error + js_object) \<times> 'w" where
  "processPDF rt generateCompletion w file =
     (case extractTextFromPDF (file_pdf file) of
        Inl e \<Rightarrow> (Inl e, w)
      | Inr text \<Rightarrow>
          (let markdown = convertTextToMarkdown text
           in case analyzeWithAI rt generateCompletion w markdown of
                (Inl aiError, w') \<Rightarrow> (Inl aiError, w')
              | (Inr extractedData, w') \<Rightarrow>
                  (Inr (extractedData
                        (''title'' \<mapsto> js_or (extractedData ''title'')
                                         (JStr (strip_pdf_suffix (file_name file))),
                         ''authors'' \<mapsto> js_or (extractedData ''authors'') (JStr ''Unknown''),
                         ''year'' \<mapsto> JNum (getFullYear rt),
                         ''full_text'' \<mapsto> JStr markdown)), w')))"


section \<open>The upload view: sanitizeText and the batch loop\<close>

text \<open>\<open>String(v)\<close> on a decoded value; an array joins its elements with commas, where
  \<open>null\<close> counts as the empty string. A number is printed with all its digits, as
  \<open>String\<close> does for integers below \<open>10^21\<close> in absolute value (from there on it
  switches to exponent notation, which is not modelled).\<close>

fun show_nat :: "nat \<Rightarrow> string" where
  "show_nat n =
     (if n < 10 then [''0123456789'' ! n]
      else show_nat (n div 10) @ [''0123456789'' ! (n mod 10)])"

declare show_nat.simps [simp del]

definition show_int :: "int \<Rightarrow> string" where
  "show_int i = (if i < 0 then ''-'' @ show_nat (nat (- i)) else show_nat (nat i))"

fun js_String :: "js_value \<Rightarrow> string" where
  "js_String JNull = ''null''"
| "js_String (JBool b) = (if b then ''true'' else ''false'')"
| "js_String (JNum n) = show_int n"
| "js_String (JStr s) = s"
| "js_String (JArr xs) =
     join '','' (map (\<lambda>v. if v = JNull then [] else js_String v) xs)"
| "js_String (JObj kvs) = ''[object Object]''"

definition is_hex_digit :: "char \<Rightarrow> bool" where
  "is_hex_digit c =
     (let n = code_unit c
      in (48 \<le> n \<and> n \<le> 57) \<or> (65 \<le> n \<and> n \<le> 70) \<or> (97 \<le> n \<and> n \<le> 102))"

text \<open>\<open>s.replace(/\\u[0-9a-fA-F]{4}/g, '')\<close>: every backslash, \<open>u\<close> and four hexadecimal
  digits is removed, scanning from the left.\<close>

definition is_unicode_escape :: "string \<Rightarrow> bool" where
  "is_unicode_escape s =
     (length s = 6 \<and> s ! 0 = CHR 0x5C \<and> s ! 1 = CHR ''u''
      \<and> is_hex_digit (s ! 2) \<and> is_hex_digit (s ! 3)
      \<and> is_hex_digit (s ! 4) \<and> is_hex_digit (s ! 5))"

function remove_unicode_escapes :: "string \<Rightarrow> string" where
  "remove_unicode_escapes [] = []"
| "remove_unicode_escapes (x # xs) =
     (if is_unicode_escape (take 6 (x # xs)) then remove_unicode_escapes (drop 5 xs)
      else x # remove_unicode_escapes xs)"
  by pat_completeness auto
termination
  by (relation "measure length") auto

declare remove_unicode_escapes.simps [simp del]

text \<open>\<open>s.replace(/[\u0000-\u0008\u000B-\u000C\u000E-\u001F]/g, '')\<close>.\<close>

definition is_control_char :: "char \<Rightarrow> bool" where
  "is_control_char c =
     (let n = code_unit c in n \<le> 8 \<or> n = 11 \<or> n = 12 \<or> (14 \<le> n \<and> n \<le> 31))"

definition sanitizeText :: "runtime \<Rightarrow> js_value option \<Rightarrow> string option" where
  "sanitizeText rt text =
     (case text of
        None \<Rightarrow> None
      | Some JNull \<Rightarrow> None
      | Some v \<Rightarrow>
          Some (trim (normalize_NFKD rt
                  (filter (\<lambda>c. \<not> is_control_char c)
                     (remove_unicode_escapes (js_String v))))))"

datatype processing_status =
  Status_pending | Status_uploading | Status_processing | Status_extracting
  | Status_success | Status_error

record uploaded_file =
  uf_file :: pdf_file
  uf_id :: string
  uf_uploading :: bool
  uf_processingStatus :: processing_status
  uf_processingProgress :: nat
  uf_extractedData :: "js_object option"
  uf_error :: "string option"
  uf_success :: bool

text \<open>The view's own \<open>processPDF\<close>: it calls the service and turns a thrown error into
  a file in status \<open>error\<close>; it never throws.\<close>

definition view_processPDF ::
  "runtime \<Rightarrow> 'w completion \<Rightarrow> 'w \<Rightarrow> uploaded_file \<Rightarrow> uploaded_file \<times> 'w" where
  "view_processPDF rt generateCompletion w fileObj =
     (let updatedFile = fileObj\<lparr>uf_processingStatus := Status_processing,
                                 uf_processingProgress := 10\<rparr>
      in case processPDF rt generateCompletion w (uf_file fileObj) of
           (Inr extractedData, w') \<Rightarrow>
             (updatedFile\<lparr>uf_processingStatus := Status_success,
                           uf_processingProgress := 100,
                           uf_extractedData := Some extractedData\<rparr>, w')
         | (Inl e, w') \<Rightarrow>
             (updatedFile\<lparr>uf_processingStatus := Status_error,
                           uf_processingProgress := 0,
                           uf_error := Some (if message e \<noteq> [] then message e
                                             else ''Failed to process PDF'')\<rparr>, w'))"

text \<open>A row of \<open>pdf_uploads\<close> as the view inserts it.\<close>

record pdf_upload_row =
  row_filename :: string
  row_title :: "string option"
  row_authors :: "string option"
  row_year :: js_value
  row_doi :: "string option"
  row_background :: "string option"
  row_research_question :: "string option"
  row_major_findings :: "string option"
  row_suggestions :: "string option"
  row_full_text :: "string option"

text \<open>\<open>processedFile.extractedData?.key\<close>.\<close>

definition extracted_field :: "js_object option \<Rightarrow> string \<Rightarrow> js_value option" where
  "extracted_field extractedData key =
     (case extractedData of None \<Rightarrow> None | Some d \<Rightarrow> d key)"

definition upload_row :: "runtime \<Rightarrow> uploaded_file \<Rightarrow> uploaded_file \<Rightarrow> pdf_upload_row" where
  "upload_row rt fileObj processedFile =
     (let d = uf_extractedData processedFile
      in \<lparr>row_filename = file_name (uf_file fileObj),
          row_title = sanitizeText rt (extracted_field d ''title''),
          row_authors = sanitizeText rt (extracted_field d ''authors''),
          row_year = js_or (extracted_field d ''year'') (JNum (getFullYear rt)),
          row_doi = sanitizeText rt (extracted_field d ''doi''),
          row_background = sanitizeText rt (extracted_field d ''background''),
          row_research_question = sanitizeText rt (extracted_field d ''research_question''),
          row_major_findings = sanitizeText rt (extracted_field d ''major_findings''),
          row_suggestions = sanitizeText rt (extracted_field d ''suggestions''),
          row_full_text = sanitizeText rt (extracted_field d ''full_text'')\<rparr>)"

text \<open>
  The persistence collaborator during the batch loop: the tables \<open>pdf_uploads\<close> (rows
  with the id the store gave them) and \<open>batch_pdfs\<close>, and, for each file, what the
  collaborator answers to the three calls made for it. An insert that answers with an
  error, or with no row, adds nothing.
\<close>

record upload_store =
  pdf_uploads :: "(string \<times> pdf_upload_row) list"
  batch_pdfs :: "(string \<times> string) list"

datatype insert_outcome = Insert_error string | Insert_no_data | Inserted string

record file_outcome =
  upload_outcome :: "string option"
  insert_outcome :: insert_outcome
  link_outcome :: "string option"

text \<open>The body of the \<open>try\<close> block for file \<open>i\<close>: the error thrown, if any, with the
  state reached.\<close>

definition upload_file_try ::
  "runtime \<Rightarrow> 'w completion \<Rightarrow> string \<Rightarrow> uploaded_file \<Rightarrow> file_outcome \<Rightarrow> nat \<Rightarrow>
   uploaded_file list \<times> upload_store \<times> 'w \<Rightarrow>
   js_error option \<times> uploaded_file list \<times> upload_store \<times> 'w" where
  "upload_file_try rt generateCompletion batchId fileObj out i st =
     (case st of (updatedFiles, db, w) \<Rightarrow>
        (case upload_outcome out of
           Some m \<Rightarrow> (Some (Error (''Failed to upload file: '' @ m)), updatedFiles, db, w)
         | None \<Rightarrow>
             (let updatedFiles1 = updatedFiles[i := (updatedFiles ! i)
                                    \<lparr>uf_uploading := False,
                                     uf_processingStatus := Status_pending,
                                     uf_processingProgress := 0\<rparr>];
                  (processedFile, w') =
                     view_processPDF rt generateCompletion w (updatedFiles1 ! i);
                  updatedFiles2 = updatedFiles1[i := processedFile];
                  row = upload_row rt fileObj processedFile
              in case insert_outcome out of
                   Insert_error m \<Rightarrow>
                     (Some (Error (''Failed to create PDF record: '' @ m)),
                      updatedFiles2, db, w')
                 | Insert_no_data \<Rightarrow>
                     (Some (Error ''Failed to create PDF record: No PDF ID returned''),
                      updatedFiles2, db, w')
                 | Inserted pdfId \<Rightarrow>
                     (let db1 = db\<lparr>pdf_uploads := pdf_uploads db @ [(pdfId, row)]\<rparr>
                      in case link_outcome out of
                           Some m \<Rightarrow>
                             (Some (Error (''Failed to link PDF to batch: '' @ m)),
                              updatedFiles2, db1, w')
                         | None \<Rightarrow>
                             (None, updatedFiles2,
                              db1\<lparr>batch_pdfs := batch_pdfs db1 @ [(batchId, pdfId)]\<rparr>,
                              w')))))"

text \<open>One iteration of the loop: the file is marked as uploading, the \<open>try\<close> block
  runs, and the \<open>catch\<close> records the error on the file.\<close>

definition upload_file_step ::
  "runtime \<Rightarrow> 'w completion \<Rightarrow> string \<Rightarrow> uploaded_file list \<Rightarrow> file_outcome list \<Rightarrow> nat \<Rightarrow>
   uploaded_file list \<times> upload_store \<times> 'w \<Rightarrow> uploaded_file list \<times> upload_store \<times> 'w" where
  "upload_file_step rt generateCompletion batchId files outs i st =
     (case st of (updatedFiles, db, w) \<Rightarrow>
        (let fileObj = files ! i;
             updatedFiles0 = updatedFiles[i := fileObj\<lparr>uf_uploading := True\<rparr>]
         in case upload_file_try rt generateCompletion batchId fileObj (outs ! i) i
                   (updatedFiles0, db, w) of
              (None, st') \<Rightarrow> st'
            | (Some fileError, updatedFiles', db', w') \<Rightarrow>
                (updatedFiles'[i := (updatedFiles' ! i)
                    \<lparr>uf_uploading := False,
                     uf_error := Some (message fileError),
                     uf_success := False,
                     uf_processingStatus := Status_error,
                     uf_processingProgress := 0\<rparr>], db', w')))"

text \<open>The loop \<open>for (let i = 0; i < files.length; i++)\<close> over a copy of \<open>files\<close>.\<close>

definition upload_loop ::
  "runtime \<Rightarrow> 'w completion \<Rightarrow> string \<Rightarrow> uploaded_file list \<Rightarrow> file_outcome list \<Rightarrow>
   upload_store \<times> 'w \<Rightarrow> uploaded_file list \<times> upload_store \<times> 'w" where
  "upload_loop rt generateCompletion batchId files outs st =
     fold (upload_file_step rt generateCompletion batchId files outs)
       [0..<length files] (files, fst st, snd st)"


section \<open>AIService: the model configurations\<close>

record AIModel =
  ai_id :: string
  ai_name :: string
  provider :: string
  api_key :: string
  base_url :: "string option"
  model_name :: string
  is_default :: bool
  created_at :: string
  updated_at :: string

text \<open>
  The table \<open>ai_models\<close> is the list of its rows. A call to the persistence collaborator
  is given by what it answers: a read or a write either goes through or reports an error
  (or rejects), and a write that reports an error leaves the table as it was. A write
  carries the time stamp it stores in \<open>updated_at\<close>.
\<close>

record db_write =
  write_ok :: bool
  write_time :: string

text \<open>\<open>update({is_default: false, updated_at}).eq('is_default', true)\<close>.\<close>

definition update_clear_defaults :: "string \<Rightarrow> AIModel list \<Rightarrow> AIModel list" where
  "update_clear_defaults t rows =
     map (\<lambda>m. if is_default m then m\<lparr>is_default := False, updated_at := t\<rparr> else m) rows"

text \<open>
  \<open>update({is_default: true, updated_at}).eq('id', id)\<close>. The schema of
  \<open>supabase/init.sql\<close> declares the trigger \<open>ensure_single_default_ai_model\<close>, which,
  before a row is written with \<open>is_default\<close> set, clears the flag of every row with
  another id; \<open>trigger\<close> tells whether the table has it.
\<close>

definition update_set_default :: "bool \<Rightarrow> string \<Rightarrow> string \<Rightarrow> AIModel list \<Rightarrow> AIModel list" where
  "update_set_default trigger t ident rows =
     (if trigger \<and> ident \<in> ai_id ` set rows
      then map (\<lambda>m. if ai_id m = ident then m\<lparr>is_default := True, updated_at := t\<rparr>
                     else m\<lparr>is_default := False, updated_at := t\<rparr>) rows
      else map (\<lambda>m. if ai_id m = ident then m\<lparr>is_default := True, updated_at := t\<rparr>
                     else m) rows)"

text \<open>\<open>clearDefaultModels\<close>: the error is caught and reported as \<open>false\<close>.\<close>

definition clearDefaultModels :: "db_write \<Rightarrow> AIModel list \<Rightarrow> bool \<times> AIModel list" where
  "clearDefaultModels wr rows =
     (if write_ok wr then (True, update_clear_defaults (write_time wr) rows)
      else (False, rows))"

text \<open>\<open>setAsDefault\<close>: the answer of \<open>clearDefaultModels\<close> is not looked at.\<close>

definition setAsDefault ::
  "bool \<Rightarrow> db_write \<Rightarrow> db_write \<Rightarrow> string \<Rightarrow> AIModel list \<Rightarrow> bool \<times> AIModel list" where
  "setAsDefault trigger wr_clear wr_set ident rows =
     (let rows1 = snd (clearDefaultModels wr_clear rows)
      in if write_ok wr_set
         then (True, update_set_default trigger (write_time wr_set) ident rows1)
         else (False, rows1))"

definition default_models :: "AIModel list \<Rightarrow> AIModel list" where
  "default_models rows = filter is_default rows"

definition at_most_one_default :: "AIModel list \<Rightarrow> bool" where
  "at_most_one_default rows = (length (default_models rows) \<le> 1)"

text \<open>\<open>maybeSingle()\<close>: no row is \<open>null\<close>, one row is that row, several rows are an
  error. \<open>getDefaultModel\<close> and \<open>getModelById\<close> answer \<open>null\<close> on every error.\<close>

definition maybeSingle :: "'a list \<Rightarrow> js_error + 'a option" where
  "maybeSingle rows =
     (case rows of
        [] \<Rightarrow> Inr None
      | [r] \<Rightarrow> Inr (Some r)
      | _ \<Rightarrow> Inl (Error ''JSON object requested, multiple (or no) rows returned''))"

definition getDefaultModel :: "bool \<Rightarrow> AIModel list \<Rightarrow> AIModel option" where
  "getDefaultModel read_ok rows =
     (if read_ok
      then (case maybeSingle (filter is_default rows) of Inl e \<Rightarrow> None | Inr r \<Rightarrow> r)
      else None)"

definition getModelById :: "bool \<Rightarrow> AIModel list \<Rightarrow> string \<Rightarrow> AIModel option" where
  "getModelById read_ok rows ident =
     (if read_ok
      then (case maybeSingle (filter (\<lambda>m. ai_id m = ident) rows) of
              Inl e \<Rightarrow> None | Inr r \<Rightarrow> r)
      else None)"


section \<open>AIService.generateCompletion\<close>

text \<open>A context record, with the properties the prompt template reads.\<close>

record paper =
  paper_name :: string
  paper_author :: "string option"
  paper_year :: "int option"
  paper_abstract :: "string option"
  paper_doi :: "string option"

text \<open>\<open>s || d\<close> on a string that may be \<open>null\<close>.\<close>

definition str_or :: "string option \<Rightarrow> string \<Rightarrow> string" where
  "str_or s d = (case s of None \<Rightarrow> d | Some v \<Rightarrow> if v \<noteq> [] then v else d)"

definition year_or :: "int option \<Rightarrow> string \<Rightarrow> string" where
  "year_or y d = (case y of None \<Rightarrow> d | Some n \<Rightarrow> if n \<noteq> 0 then show_int n else d)"

definition paper_block :: "nat \<Rightarrow> paper \<Rightarrow> string" where
  "paper_block index p =
     ''\<newline>PAPER '' @ show_nat (index + 1) @ '':\<newline>'' @
     ''Title: '' @ paper_name p @ ''\<newline>'' @
     ''Author: '' @ str_or (paper_author p) ''Unknown'' @ ''\<newline>'' @
     ''Year: '' @ year_or (paper_year p) ''Unknown'' @ ''\<newline>'' @
     ''Abstract: '' @ str_or (paper_abstract p) ''No abstract provided.'' @ ''\<newline>'' @
     ''DOI: '' @ str_or (paper_doi p) ''N/A'' @ ''\<newline>''"

definition papers_intro :: string where
  \<open>papers_intro =
     ''I want you to act as an academic research assistant. I'll provide you with information about academic papers, and you'll help answer questions about them.\<newline>'' @
     ''\<newline>'' @
     ''CONTEXT:\<newline>'' @
     ''The following are summaries of academic papers related to the query:\<newline>'' @
     ''\<newline>''\<close>

definition papers_question :: string where
  "papers_question =
     ''\<newline>'' @
     ''\<newline>'' @
     ''Based on the above academic papers, please answer the following question:\<newline>''"

definition papers_instruction :: string where
  \<open>papers_instruction =
     ''\<newline>'' @
     ''\<newline>'' @
     ''Your response should be clear, factual, and directly reference the papers when appropriate. If the papers don't contain information to answer the question, please state that clearly.''\<close>

definition papers_prompt :: "string \<Rightarrow> paper list \<Rightarrow> string" where
  "papers_prompt prompt papers =
     papers_intro @
     join ''\<newline>'' (map (\<lambda>(index, p). paper_block index p) (enumerate 0 papers)) @
     papers_question @ prompt @ papers_instruction"

definition context_prompt :: "string \<Rightarrow> string \<Rightarrow> string" where
  "context_prompt prompt context =
     ''CONTEXT: '' @ context @ ''\<newline>\<newline>QUESTION: '' @ prompt @
     ''\<newline>\<newline>Please provide a helpful response based on the context provided.''"

text \<open>The prompt augmentation: \<open>papers && papers.length > 0\<close>, else \<open>context\<close>, else the
  prompt as it is.\<close>

definition promptContent :: "string \<Rightarrow> string option \<Rightarrow> paper list option \<Rightarrow> string" where
  "promptContent prompt context papers =
     (if (case papers of None \<Rightarrow> False | Some ps \<Rightarrow> 0 < length ps)
      then papers_prompt prompt (the papers)
      else if (case context of None \<Rightarrow> False | Some c \<Rightarrow> c \<noteq> [])
      then context_prompt prompt (the context)
      else prompt)"

text \<open>
  The outbound request of a provider: the endpoint, the bearer token, and the body with
  the model name, the messages (role and content), \<open>max_tokens\<close> and \<open>stream\<close>. The
  sampling parameters are constants of each provider and are left out.
\<close>

record http_request =
  req_endpoint :: string
  req_bearer :: string
  req_model :: string
  req_messages :: "(string \<times> string) list"
  req_max_tokens :: nat
  req_stream :: bool

text \<open>
  What \<open>fetch\<close> answers: it rejects, or there is a response with \<open>ok\<close>, \<open>status\<close> and
  a body; \<open>response.json()\<close> rejects, or the body decodes, and then the code reads
  \<open>error?.message\<close> and the \<open>message.content\<close> of the \<open>choices\<close>.
\<close>

datatype response_json =
    Json_rejects js_error
  | Json_body "string option" "string list option"

datatype fetch_outcome =
    Fetch_rejects js_error
  | Response bool nat response_json

record ai_env =
  read_ok :: bool
  fetch :: "http_request \<Rightarrow> fetch_outcome"

text \<open>The world of the service: the table of configurations and the requests sent so
  far.\<close>

record ai_world =
  ai_models :: "AIModel list"
  sent :: "http_request list"

definition chat_request :: "AIModel \<Rightarrow> string \<Rightarrow> string \<Rightarrow> http_request" where
  "chat_request model default_base prompt =
     \<lparr>req_endpoint = str_or (base_url model) default_base @ ''/chat/completions'',
      req_bearer = api_key model,
      req_model = model_name model,
      req_messages = [(''user'', prompt)],
      req_max_tokens = 1024,
      req_stream = False\<rparr>"

text \<open>The request and the reading of the response are the same for SiliconFlow and
  OpenRouter, up to the default base URL (and headers that are left out).\<close>

definition chat_completion ::
  "ai_env \<Rightarrow> ai_world \<Rightarrow> AIModel \<Rightarrow> string \<Rightarrow> string \<Rightarrow> (js_error + string) \<times> ai_world" where
  "chat_completion env w model default_base prompt =
     (let req = chat_request model default_base prompt;
          w' = w\<lparr>sent := sent w @ [req]\<rparr>
      in case fetch env req of
           Fetch_rejects e \<Rightarrow> (Inl e, w')
         | Response ok status body \<Rightarrow>
             (case body of
                Json_rejects e \<Rightarrow> (Inl e, w')
              | Json_body error_message choices \<Rightarrow>
                  if \<not> ok
                  then (Inl (Error (str_or error_message
                                      (''API Error: '' @ show_nat status))), w')
                  else (case choices of
                          Some (c # cs) \<Rightarrow> (Inr c, w')
                        | _ \<Rightarrow> (Inl (Error ''No content in API response''), w'))))"

definition generateSiliconFlowCompletion ::
  "ai_env \<Rightarrow> ai_world \<Rightarrow> AIModel \<Rightarrow> string \<Rightarrow> (js_error + string) \<times> ai_world" where
  "generateSiliconFlowCompletion env w model prompt =
     chat_completion env w model ''https://api.siliconflow.cn/v1'' prompt"

definition generateOpenRouterCompletion ::
  "ai_env \<Rightarrow> ai_world \<Rightarrow> AIModel \<Rightarrow> string \<Rightarrow> (js_error + string) \<times> ai_world" where
  "generateOpenRouterCompletion env w model prompt =
     chat_completion env w model ''https://openrouter.ai/api/v1'' prompt"

definition NoModelConfigured :: js_error where
  "NoModelConfigured = Error ''No AI model available. Please configure one in AI Settings.''"

text \<open>\<open>modelId ? getModelById(modelId) : getDefaultModel()\<close>: an empty \<open>modelId\<close> counts
  as none.\<close>

definition resolve_model :: "ai_env \<Rightarrow> ai_world \<Rightarrow> string option \<Rightarrow> AIModel option" where
  "resolve_model env w modelId =
     (if (case modelId of None \<Rightarrow> False | Some i \<Rightarrow> i \<noteq> [])
      then getModelById (read_ok env) (ai_models w) (the modelId)
      else getDefaultModel (read_ok env) (ai_models w))"

definition generateCompletion ::
  "ai_env \<Rightarrow> ai_world \<Rightarrow> string \<Rightarrow> string option \<Rightarrow> string option \<Rightarrow> paper list option \<Rightarrow>
   (js_error + string) \<times> ai_world" where
  "generateCompletion env w prompt modelId context papers =
     (case resolve_model env w modelId of
        None \<Rightarrow> (Inl NoModelConfigured, w)
      | Some model \<Rightarrow>
          (let content = promptContent prompt context papers
           in if provider model = ''siliconflow''
                then generateSiliconFlowCompletion env w model content
              else if provider model = ''openai''
                then (Inl (Error ''OpenAI API implementation not available yet''), w)
              else if provider model = ''anthropic''
                then (Inl (Error ''Anthropic API implementation not available yet''), w)
              else if provider model = ''google''
                then (Inl (Error ''Google API implementation not available yet''), w)
              else if provider model = ''openrouter''
                then generateOpenRouterCompletion env w model content
              else (Inl (Error (''Provider '' @ provider model @ '' is not implemented yet.'')),
                    w)))"


section \<open>FirecrawlService.getApiKey\<close>

definition DEFAULT_API_KEY :: string where
  "DEFAULT_API_KEY = ''fc-71889ec5fbbd46838335b514190d059d''"

text \<open>
  What the lookup of the newest row of \<open>firecrawl_api_keys\<close> answers: the call rejects,
  it reports an error (as \<open>single()\<close> does when there is no row), it answers without
  data, or it answers with a row, whose \<open>api_key\<close> may be \<open>null\<close>.
\<close>

datatype key_lookup =
    Lookup_rejects js_error
  | Lookup_error string
  | Lookup_no_data
  | Lookup_row "string option"

text \<open>The \<open>try\<close> block: an error thrown, or the value returned early (if any) with the
  cache.\<close>

definition getApiKey_try ::
  "key_lookup \<Rightarrow> string option \<Rightarrow> js_error + (string option \<times> string option)" where
  "getApiKey_try lookup cachedApiKey =
     (case lookup of
        Lookup_rejects e \<Rightarrow> Inl e
      | Lookup_error m \<Rightarrow> Inr (Some DEFAULT_API_KEY, cachedApiKey)
      | Lookup_no_data \<Rightarrow> Inr (None, cachedApiKey)
      | Lookup_row None \<Rightarrow> Inr (None, cachedApiKey)
      | Lookup_row (Some k) \<Rightarrow>
          if k \<noteq> [] then Inr (Some k, Some k) else Inr (None, cachedApiKey))"

text \<open>\<open>getApiKey\<close> with the cache as state: the result and the new cache.\<close>

definition getApiKey ::
  "key_lookup \<Rightarrow> string option \<Rightarrow> (js_error + string) \<times> string option" where
  "getApiKey lookup cachedApiKey =
     (if (case cachedApiKey of None \<Rightarrow> False | Some k \<Rightarrow> k \<noteq> [])
      then (Inr (the cachedApiKey), cachedApiKey)
      else (case getApiKey_try lookup cachedApiKey of
              Inl e \<Rightarrow> (Inr DEFAULT_API_KEY, cachedApiKey)
            | Inr (Some v, cache') \<Rightarrow> (Inr v, cache')
            | Inr (None, cache') \<Rightarrow> (Inr DEFAULT_API_KEY, cache')))"


section \<open>Predicates of the properties, and sample data\<close>

text \<open>Either completion call of the pipeline raises: the first one, or the second one in
  the world the first one left.\<close>

definition completion_raises :: "'w completion \<Rightarrow> 'w \<Rightarrow> string \<Rightarrow> bool" where
  "completion_raises gen w markdown =
     (case gen w (initialPrompt (slice0 3000 markdown)) of
        (Inl e, w1) \<Rightarrow> True
      | (Inr metadataResponse, w1) \<Rightarrow>
          (case gen w1 (contentPrompt (slice0 6000 markdown)) of
             (Inl e, w2) \<Rightarrow> True
           | (Inr contentResponse, w2) \<Rightarrow> False))"

text \<open>A response is not valid JSON for the pipeline: no span in braces, or a span that
  \<open>JSON.parse\<close> refuses.\<close>

definition parse_fails :: "runtime \<Rightarrow> string \<Rightarrow> bool" where
  "parse_fails rt response =
     (case match_braces response of
        None \<Rightarrow> True
      | Some span \<Rightarrow> JSON_parse rt span = None)"

text \<open>No explicit model id is given.\<close>

definition no_model_id :: "string option \<Rightarrow> bool" where
  "no_model_id modelId = (case modelId of None \<Rightarrow> True | Some i \<Rightarrow> i = [])"

text \<open>A key is cached; the lookup yields a key record.\<close>

definition key_cached :: "string option \<Rightarrow> bool" where
  "key_cached cachedApiKey = (case cachedApiKey of None \<Rightarrow> False | Some k \<Rightarrow> k \<noteq> [])"

definition lookup_has_key :: "key_lookup \<Rightarrow> bool" where
  "lookup_has_key lookup = (case lookup of Lookup_row (Some k) \<Rightarrow> k \<noteq> [] | _ \<Rightarrow> False)"

text \<open>A runtime for the examples: the year is 2025, the texts are ASCII, which NFKD leaves
  as they are, and the only text handed to \<open>JSON.parse\<close> is \<open>{}\<close>.\<close>

definition sample_runtime :: runtime where
  "sample_runtime =
     \<lparr>JSON_parse = (\<lambda>s. if s = ''{}'' then Some Map.empty else None),
      getFullYear = 2025,
      normalize_NFKD = (\<lambda>s. s)\<rparr>"

definition sample_model :: "string \<Rightarrow> bool \<Rightarrow> AIModel" where
  "sample_model ident dflt =
     \<lparr>ai_id = ident, ai_name = ''model '' @ ident, provider = ''siliconflow'',
      api_key = ''sk-test'', base_url = None, model_name = ''deepseek-chat'',
      is_default = dflt, created_at = ''2025-01-01T00:00:00.000Z'',
      updated_at = ''2025-01-01T00:00:00.000Z''\<rparr>"

text \<open>A provider that cannot be reached, and the pipeline's completion call on the
  service.\<close>

definition offline_env :: ai_env where
  "offline_env = \<lparr>read_ok = True, fetch = (\<lambda>req. Fetch_rejects (Error ''Failed to fetch''))\<rparr>"

definition service_completion :: "ai_env \<Rightarrow> ai_world completion" where
  "service_completion env w prompt = generateCompletion env w prompt None None None"



text \<open>The structured response of the model in a run of the pipeline: the two partial
  objects, the content object over the metadata object; nothing when a call raises.\<close>

definition structured_response :: "runtime \<Rightarrow> 'w completion \<Rightarrow> 'w \<Rightarrow> string \<Rightarrow> js_object" where
  "structured_response rt gen w markdown =
     (case gen w (initialPrompt (slice0 3000 markdown)) of
        (Inl e, w1) \<Rightarrow> Map.empty
      | (Inr metadataResponse, w1) \<Rightarrow>
          (case gen w1 (contentPrompt (slice0 6000 markdown)) of
             (Inl e, w2) \<Rightarrow> Map.empty
           | (Inr contentResponse, w2) \<Rightarrow>
               parse_partial rt metadataResponse ++ parse_partial rt contentResponse))"


text \<open>The keys other than the four that \<open>processPDF\<close> sets itself.\<close>

definition extra_key :: "string \<Rightarrow> bool" where
  "extra_key k = (k \<noteq> ''title'' \<and> k \<noteq> ''authors'' \<and> k \<noteq> ''year'' \<and> k \<noteq> ''full_text'')"


text \<open>
  A file of a batch fails when its text cannot be extracted or when one of the three
  calls to the store made for it reports an error or no row. It is persisted when the
  table \<open>pdf_uploads\<close> holds its row under the id the store gave it and \<open>batch_pdfs\<close>
  links that id to the batch.
\<close>

definition file_fails :: "uploaded_file \<Rightarrow> file_outcome \<Rightarrow> bool" where
  "file_fails f out =
     (isl (extractTextFromPDF (file_pdf (uf_file f))) \<or> upload_outcome out \<noteq> None \<or>
      (case insert_outcome out of Inserted pdfId \<Rightarrow> False | _ \<Rightarrow> True) \<or>
      link_outcome out \<noteq> None)"

definition persisted ::
  "runtime \<Rightarrow> string \<Rightarrow> upload_store \<Rightarrow> uploaded_file \<Rightarrow> uploaded_file \<Rightarrow> file_outcome \<Rightarrow> bool" where
  "persisted rt batchId db f f' out =
     (case insert_outcome out of
        Inserted pdfId \<Rightarrow>
          (pdfId, upload_row rt f f') \<in> set (pdf_uploads db) \<and>
          (batchId, pdfId) \<in> set (batch_pdfs db)
      | _ \<Rightarrow> False)"

definition file_settled ::
  "runtime \<Rightarrow> string \<Rightarrow> upload_store \<Rightarrow> uploaded_file \<Rightarrow> uploaded_file \<Rightarrow> file_outcome \<Rightarrow> bool" where
  "file_settled rt batchId db f f' out =
     (if file_fails f out
      then uf_processingStatus f' = Status_error \<and> uf_error f' \<noteq> None
      else uf_processingStatus f' = Status_success \<and> uf_extractedData f' \<noteq> None \<and>
           persisted rt batchId db f f' out)"


text \<open>The literal instruction of the prompt template for context records.\<close>

definition insufficient_instruction :: string where
  \<open>insufficient_instruction =
     ''If the papers don't contain information to answer the question, please state that clearly.''\<close>

definition sample_papers :: "paper list" where
  "sample_papers =
     [\<lparr>paper_name = ''Paper One'', paper_author = Some ''Ada'', paper_year = Some 2019,
       paper_abstract = Some ''On ones.'', paper_doi = Some ''10.1/one''\<rparr>,
      \<lparr>paper_name = ''Paper Two'', paper_author = None, paper_year = None,
       paper_abstract = None, paper_doi = None\<rparr>,
      \<lparr>paper_name = ''Paper Three'', paper_author = Some '''', paper_year = Some 0,
       paper_abstract = Some ''On threes.'', paper_doi = Some ''''\<rparr>]"


text \<open>An uploaded file as the drop zone creates it.\<close>

definition sample_upload :: "string \<Rightarrow> pdf_document \<Rightarrow> uploaded_file" where
  "sample_upload name doc =
     \<lparr>uf_file = \<lparr>file_name = name, file_pdf = doc\<rparr>, uf_id = name, uf_uploading = False,
      uf_processingStatus = Status_pending, uf_processingProgress = 0,
      uf_extractedData = None, uf_error = None, uf_success = False\<rparr>"


text \<open>A batch of three files, the second of which has no page that can be read, and a
  store that answers every call for a file, giving its row the id \<open>pdfId\<close>.\<close>

definition sample_outcome :: "string \<Rightarrow> file_outcome" where
  "sample_outcome pdfId =
     \<lparr>upload_outcome = None, insert_outcome = Inserted pdfId, link_outcome = None\<rparr>"

definition sample_batch :: "uploaded_file list" where
  "sample_batch =
     [sample_upload ''a.pdf'' (Inr [Inr [''Hello'']]),
      sample_upload ''b.pdf'' (Inr [Inl (Error ''Invalid page request'')]),
      sample_upload ''c.pdf'' (Inr [Inr [''Hello'']])]"


section \<open>The markdown structuring\<close>

text \<open>
  C2 (as amended). For the input \<open>My Title / Some intro / Abstract / This is the abstract
  text\<close> the function emits the heading \<open># My Title\<close>, the body line \<open>Some intro\<close>, and
  the heading \<open>## Abstract\<close> twice: once for the line \<open>Abstract\<close> and once for the line
  \<open>This is the abstract text\<close>, which contains the keyword and so is a section line too.
  Neither of the two lines is emitted as body text.
\<close>

theorem convertTextToMarkdown_example:
  "convertTextToMarkdown
     ''My Title\<newline>Some intro\<newline>Abstract\<newline>This is the abstract text'' =
   ''# My Title\<newline>\<newline>Some intro\<newline>\<newline>## Abstract\<newline>\<newline>\<newline>## Abstract\<newline>\<newline>''"
  by code_simp

text \<open>C2 as stated fails: the text \<open>This is the abstract text\<close> does not occur in the
  output at all, so it is not a body line of it.\<close>

theorem abstract_text_line_not_emitted:
  "\<not> str_includes
       (convertTextToMarkdown
          ''My Title\<newline>Some intro\<newline>Abstract\<newline>This is the abstract text'')
       ''This is the abstract text''"
  by code_simp


section \<open>The text extraction\<close>

lemma blank_page_extraction: "extractTextFromPDF (Inr [Inr []]) = Inr []"
  by code_simp

lemma extract_pages_all_fail: "\<forall>p \<in> set pages. isl p \<Longrightarrow> extract_pages pages acc = acc"
  by (induction pages acc rule: extract_pages.induct) auto

text \<open>When no page yields anything (there is no page, or every page fails), the
  extraction fails with \<open>NoTextContent\<close>.\<close>

lemma extractTextFromPDF_no_page:
  "\<forall>p \<in> set pages. isl p \<Longrightarrow> extractTextFromPDF (Inr pages) = Inl NoTextContent"
  by (simp add: extractTextFromPDF_def extractTextFromPDF_try_def extract_pages_all_fail
        NoTextContent_def)

text \<open>As soon as one page can be read, the accumulator is not empty, whatever the page
  holds, and the extraction returns its trimmed text.\<close>

lemma extract_pages_read:
  "(\<exists>p \<in> set pages. \<not> isl p) \<or> acc \<noteq> [] \<Longrightarrow> extract_pages pages acc \<noteq> []"
  by (induction pages acc rule: extract_pages.induct) auto

lemma extractTextFromPDF_page_read:
  "\<exists>p \<in> set pages. \<not> isl p \<Longrightarrow>
   extractTextFromPDF (Inr pages) = Inr (trim (extract_pages pages []))"
  using extract_pages_read [of pages "[]"]
  by (simp add: extractTextFromPDF_def extractTextFromPDF_try_def)

text \<open>
  C9 (the code at the failing input). A document of one page without any text item: the
  page adds two line feeds to \<open>fullText\<close>, which is then not empty, so the extraction
  returns the empty text instead of failing with \<open>NoTextContent\<close>, and \<open>processPDF\<close>
  goes on to the two completion calls of the pipeline (the world counts them).
\<close>

theorem extractTextFromPDF_blank_page_passes:
  "extractTextFromPDF (Inr [Inr []]) = Inr [] \<and>
   extractTextFromPDF (Inr [Inr []]) \<noteq> Inl NoTextContent \<and>
   snd (processPDF sample_runtime (\<lambda>w p. (Inr ''{}'', Suc w)) 0
          \<lparr>file_name = ''scan.pdf'', file_pdf = Inr [Inr []]\<rparr>) = 2"
proof -
  have md: "convertTextToMarkdown [] = []"
    by code_simp
  show ?thesis
    by (simp add: processPDF_def blank_page_extraction md analyzeWithAI_def
          analyzeWithAI_try_def Let_def)
qed


section \<open>The metadata pipeline\<close>

lemma analyzeWithAI_never_throws:
  "\<exists>r. fst (analyzeWithAI rt gen w markdown) = Inr r \<and> r ''full_text'' = Some (JStr markdown)"
  by (auto simp: analyzeWithAI_def analyzeWithAI_try_def Let_def merge_result_def
        fallback_record_def split: prod.splits sum.splits)

lemma analyzeWithAI_raised:
  assumes "completion_raises gen w markdown"
  shows "\<exists>w'. analyzeWithAI rt gen w markdown = (Inr (fallback_record rt markdown), w')"
  using assms
  by (auto simp: analyzeWithAI_def analyzeWithAI_try_def completion_raises_def Let_def
        split: prod.splits sum.splits)

text \<open>
  C1. If either completion call of the pipeline raises, then for every markdown the
  pipeline does not throw: it returns to its caller the record with the empty title, the
  authors \<open>Unknown\<close>, the current year, and the markdown as \<open>full_text\<close>, and nothing
  else.
\<close>

theorem analyzeWithAI_fallback:
  assumes "completion_raises gen w markdown"
  shows "fst (analyzeWithAI rt gen w markdown) =
           Inr [''title'' \<mapsto> JStr [], ''authors'' \<mapsto> JStr ''Unknown'',
                ''year'' \<mapsto> JNum (getFullYear rt), ''full_text'' \<mapsto> JStr markdown]"
  using assms
  by (auto simp: analyzeWithAI_def analyzeWithAI_try_def completion_raises_def Let_def
        fallback_record_def split: prod.splits sum.splits)

text \<open>Two runs: the provider of the default model cannot be reached, so the first call
  raises; and a completion that answers once and raises at the second call.\<close>

theorem analyzeWithAI_fallback_witness:
  "completion_raises (service_completion offline_env)
     \<lparr>ai_models = [sample_model ''a'' True], sent = []\<rparr> ''# T'' \<and>
   fst (analyzeWithAI sample_runtime (service_completion offline_env)
          \<lparr>ai_models = [sample_model ''a'' True], sent = []\<rparr> ''# T'') =
     Inr [''title'' \<mapsto> JStr [], ''authors'' \<mapsto> JStr ''Unknown'',
          ''year'' \<mapsto> JNum 2025, ''full_text'' \<mapsto> JStr ''# T''] \<and>
   completion_raises
     (\<lambda>w p. (if w = 0 then Inr ''{}'' else Inl (Error ''Failed to fetch''), Suc w))
     (0::nat) ''# T'' \<and>
   fst (analyzeWithAI sample_runtime
          (\<lambda>w p. (if w = 0 then Inr ''{}'' else Inl (Error ''Failed to fetch''), Suc w))
          (0::nat) ''# T'') =
     Inr [''title'' \<mapsto> JStr [], ''authors'' \<mapsto> JStr ''Unknown'',
          ''year'' \<mapsto> JNum 2025, ''full_text'' \<mapsto> JStr ''# T'']"
proof -
  have raises: "completion_raises (service_completion offline_env)
     \<lparr>ai_models = [sample_model ''a'' True], sent = []\<rparr> ''# T''"
    by (simp add: completion_raises_def service_completion_def offline_env_def
          generateCompletion_def resolve_model_def getDefaultModel_def maybeSingle_def
          sample_model_def generateSiliconFlowCompletion_def chat_completion_def Let_def)
  show ?thesis
    using raises
      analyzeWithAI_fallback [OF raises, of sample_runtime]
      analyzeWithAI_fallback
        [of "\<lambda>w p. (if w = 0 then Inr ''{}'' else Inl (Error ''Failed to fetch''), Suc w)"
            "0::nat" "''# T''" sample_runtime]
    by (simp add: completion_raises_def sample_runtime_def)
qed

text \<open>What \<open>processPDF\<close> makes of the fallback record: the empty title gives way to the
  file name without its suffix.\<close>

lemma processPDF_after_fallback:
  assumes "extractTextFromPDF (file_pdf file) = Inr body"
    and "completion_raises gen w (convertTextToMarkdown body)"
  shows "fst (processPDF rt gen w file) =
           Inr [''title'' \<mapsto> JStr (strip_pdf_suffix (file_name file)),
                ''authors'' \<mapsto> JStr ''Unknown'',
                ''year'' \<mapsto> JNum (getFullYear rt),
                ''full_text'' \<mapsto> JStr (convertTextToMarkdown body)]"
proof -
  obtain w' where an: "analyzeWithAI rt gen w (convertTextToMarkdown body) =
      (Inr (fallback_record rt (convertTextToMarkdown body)), w')"
    using analyzeWithAI_raised [OF assms(2), where rt = rt] by (elim exE)
  have "(fallback_record rt (convertTextToMarkdown body))
          (''title'' \<mapsto> JStr (strip_pdf_suffix (file_name file)),
           ''authors'' \<mapsto> JStr ''Unknown'',
           ''year'' \<mapsto> JNum (getFullYear rt),
           ''full_text'' \<mapsto> JStr (convertTextToMarkdown body)) =
        [''title'' \<mapsto> JStr (strip_pdf_suffix (file_name file)),
         ''authors'' \<mapsto> JStr ''Unknown'',
         ''year'' \<mapsto> JNum (getFullYear rt),
         ''full_text'' \<mapsto> JStr (convertTextToMarkdown body)]"
    by (rule ext) (simp add: fallback_record_def)
  moreover have "js_or (fallback_record rt (convertTextToMarkdown body) ''title'') x = x" for x
    by (simp add: fallback_record_def js_or_def)
  moreover have "js_or (fallback_record rt (convertTextToMarkdown body) ''authors'')
      (JStr ''Unknown'') = JStr ''Unknown''"
    by (simp add: fallback_record_def js_or_def)
  ultimately show ?thesis
    by (simp add: processPDF_def assms(1) an Let_def)
qed

text \<open>
  C8. For every markdown, if the response of the metadata call is not valid JSON (no span
  in braces, or a span that does not decode), the pipeline does not throw: the partial
  metadata object is empty, the record returned has \<open>full_text\<close> set to the markdown, and
  when the content call answers, the record is the merge of the empty object, the content
  object and the markdown.
\<close>

theorem analyzeWithAI_parse_failure:
  assumes "gen w (initialPrompt (slice0 3000 markdown)) = (Inr metadataResponse, w1)"
    and "parse_fails rt metadataResponse"
  shows "parse_partial rt metadataResponse = Map.empty \<and>
         (\<exists>r. fst (analyzeWithAI rt gen w markdown) = Inr r \<and>
               r ''full_text'' = Some (JStr markdown) \<and>
               (\<forall>contentResponse w2.
                  gen w1 (contentPrompt (slice0 6000 markdown)) = (Inr contentResponse, w2) \<longrightarrow>
                  r = merge_result Map.empty (parse_partial rt contentResponse) markdown))"
  using assms
  by (auto simp: analyzeWithAI_def analyzeWithAI_try_def Let_def parse_fails_def
        parse_partial_def merge_result_def fallback_record_def
        split: prod.splits sum.splits option.splits)

text \<open>Two runs where the content call answers \<open>{}\<close>: the metadata call answers with
  prose without a span in braces, or with a span in braces that is not JSON. The record
  holds the markdown and nothing else.\<close>

theorem analyzeWithAI_parse_failure_witness:
  "(\<lambda>w p. (if w = 0 then Inr ''Sorry, no metadata here {'' else Inr ''{}'', Suc w)) (0::nat)
      (initialPrompt (slice0 3000 ''# T'')) = (Inr ''Sorry, no metadata here {'', 1) \<and>
   parse_fails sample_runtime ''Sorry, no metadata here {'' \<and>
   fst (analyzeWithAI sample_runtime
          (\<lambda>w p. (if w = 0 then Inr ''Sorry, no metadata here {'' else Inr ''{}'', Suc w))
          (0::nat) ''# T'') = Inr [''full_text'' \<mapsto> JStr ''# T''] \<and>
   match_braces ''Here it is: {title: T} and more'' = Some ''{title: T}'' \<and>
   parse_fails sample_runtime ''Here it is: {title: T} and more'' \<and>
   fst (analyzeWithAI sample_runtime
          (\<lambda>w p. (if w = 0 then Inr ''Here it is: {title: T} and more'' else Inr ''{}'', Suc w))
          (0::nat) ''# T'') = Inr [''full_text'' \<mapsto> JStr ''# T'']"
proof -
  have pf: "parse_fails sample_runtime ''Sorry, no metadata here {''"
    by (simp add: parse_fails_def match_braces_def)
  have mb: "match_braces ''Here it is: {title: T} and more'' = Some ''{title: T}''"
    by (simp add: match_braces_def)
  have pf2: "parse_fails sample_runtime ''Here it is: {title: T} and more''"
    by (simp add: parse_fails_def mb sample_runtime_def)
  have pp: "parse_partial sample_runtime ''{}'' = Map.empty"
    by (simp add: parse_partial_def match_braces_def sample_runtime_def)
  show ?thesis
    using pf pf2 mb
      analyzeWithAI_parse_failure
        [of "\<lambda>w p. (if w = 0 then Inr ''Sorry, no metadata here {'' else Inr ''{}'', Suc w)"
            "0::nat" "''# T''" "''Sorry, no metadata here {''" 1 sample_runtime]
      analyzeWithAI_parse_failure
        [of "\<lambda>w p. (if w = 0 then Inr ''Here it is: {title: T} and more'' else Inr ''{}'', Suc w)"
            "0::nat" "''# T''" "''Here it is: {title: T} and more''" 1 sample_runtime]
    by (auto simp: pp merge_result_def)
qed


section \<open>The default model\<close>

lemma default_models_clear [simp]: "default_models (update_clear_defaults t rows) = []"
  by (induction rows) (auto simp: default_models_def update_clear_defaults_def)

lemma ids_clear [simp]: "map ai_id (update_clear_defaults t rows) = map ai_id rows"
  by (induction rows) (auto simp: update_clear_defaults_def)

lemma default_models_set_no_id:
  "ident \<notin> ai_id ` set rows \<Longrightarrow>
   default_models (update_set_default trigger t ident rows) = default_models rows"
  by (induction rows) (auto simp: default_models_def update_set_default_def)

lemma default_models_set_plain:
  assumes "default_models rows = []" and "distinct (map ai_id rows)"
  shows "length (default_models (update_set_default False t ident rows)) \<le> 1"
  using assms
proof (induction rows)
  case Nil
  then show ?case by (simp add: default_models_def update_set_default_def)
next
  case (Cons m rows)
  have rest: "default_models rows = []" "distinct (map ai_id rows)"
    using Cons.prems by (auto simp: default_models_def split: if_splits)
  show ?case
  proof (cases "ai_id m = ident")
    case True
    then have "ident \<notin> ai_id ` set rows" using Cons.prems(2) by auto
    then have "default_models (update_set_default False t ident rows) = []"
      using rest(1) by (simp add: default_models_set_no_id)
    then show ?thesis using True
      by (simp add: default_models_def update_set_default_def)
  next
    case False
    moreover have "\<not> is_default m"
      using Cons.prems(1) by (auto simp: default_models_def split: if_splits)
    ultimately show ?thesis using Cons.IH [OF rest]
      by (simp add: default_models_def update_set_default_def)
  qed
qed

lemma default_models_set_trigger:
  assumes "distinct (map ai_id rows)" and "ident \<in> ai_id ` set rows"
  shows "length (default_models (update_set_default True t ident rows)) \<le> 1"
proof -
  have eq: "default_models (update_set_default True t ident rows) =
        map (\<lambda>m. m\<lparr>is_default := True, updated_at := t\<rparr>) (filter (\<lambda>m. ai_id m = ident) rows)"
    using assms(2) unfolding default_models_def update_set_default_def
    by (simp add: filter_map comp_def)
  have "length (filter (\<lambda>m. ai_id m = ident) rows) \<le> 1"
    using assms(1) by (induction rows) (auto simp: image_iff filter_empty_conv)
  then show ?thesis by (simp add: eq)
qed

lemma setAsDefault_after_clear:
  assumes "distinct (map ai_id rows)" and "write_ok wr_clear"
  shows "length (default_models (snd (setAsDefault trigger wr_clear wr_set ident rows))) \<le> 1"
proof -
  let ?rows1 = "update_clear_defaults (write_time wr_clear) rows"
  have d: "distinct (map ai_id ?rows1)" and n: "default_models ?rows1 = []"
    using assms(1) by simp_all
  have "length (default_models (update_set_default trigger (write_time wr_set) ident ?rows1)) \<le> 1"
  proof (cases "trigger \<and> ident \<in> ai_id ` set ?rows1")
    case True
    then show ?thesis using default_models_set_trigger [OF d] by simp
  next
    case False
    then have "update_set_default trigger (write_time wr_set) ident ?rows1 =
               update_set_default False (write_time wr_set) ident ?rows1"
      by (auto simp: update_set_default_def)
    then show ?thesis using default_models_set_plain [OF n d] by simp
  qed
  then show ?thesis using assms(2) n
    by (simp add: setAsDefault_def clearDefaultModels_def Let_def)
qed

text \<open>
  C4 (as amended). After a \<open>setAsDefault\<close> call whose clearing write went through, at most
  one configuration has \<open>is_default = true\<close>, for every prior state of the collection
  (the ids being unique, as the primary key makes them), whether or not the second write
  goes through and whether or not the table has the trigger.
\<close>

theorem setAsDefault_single_default:
  assumes "distinct (map ai_id rows)" and "write_ok wr_clear"
  shows "at_most_one_default (snd (setAsDefault trigger wr_clear wr_set ident rows))"
  using setAsDefault_after_clear [OF assms] by (simp add: at_most_one_default_def)

theorem setAsDefault_single_default_witness:
  "distinct (map ai_id [sample_model ''a'' True, sample_model ''b'' True,
                        sample_model ''c'' False]) \<and>
   write_ok \<lparr>write_ok = True, write_time = ''t1''\<rparr> \<and>
   at_most_one_default (snd (setAsDefault False \<lparr>write_ok = True, write_time = ''t1''\<rparr>
      \<lparr>write_ok = True, write_time = ''t2''\<rparr> ''c''
      [sample_model ''a'' True, sample_model ''b'' True, sample_model ''c'' False]))"
  using setAsDefault_single_default
    [of "[sample_model ''a'' True, sample_model ''b'' True, sample_model ''c'' False]"
        "\<lparr>write_ok = True, write_time = ''t1''\<rparr>" False
        "\<lparr>write_ok = True, write_time = ''t2''\<rparr>" "''c''"]
  by (simp add: sample_model_def)

text \<open>C4 as stated fails: when both writes report an error, the call completes (it
  answers \<open>false\<close>) and a collection that had two defaults still has them, with or
  without the trigger.\<close>

theorem setAsDefault_rejected_writes:
  "\<not> at_most_one_default (snd (setAsDefault True \<lparr>write_ok = False, write_time = ''t1''\<rparr>
      \<lparr>write_ok = False, write_time = ''t2''\<rparr> ''c''
      [sample_model ''a'' True, sample_model ''b'' True, sample_model ''c'' False]))"
  by (simp add: setAsDefault_def clearDefaultModels_def at_most_one_default_def
        default_models_def sample_model_def)

text \<open>Without the trigger, a clearing write that fails and is not heeded, followed by a
  second write that goes through, leaves two defaults.\<close>

lemma setAsDefault_unheeded_clear:
  "default_models (snd (setAsDefault False \<lparr>write_ok = False, write_time = ''t1''\<rparr>
      \<lparr>write_ok = True, write_time = ''t2''\<rparr> ''b''
      [sample_model ''a'' True, sample_model ''b'' False])) =
   [sample_model ''a'' True, (sample_model ''b'' True)\<lparr>updated_at := ''t2''\<rparr>]"
  by (simp add: setAsDefault_def clearDefaultModels_def update_set_default_def
        default_models_def sample_model_def)

text \<open>With the trigger of the schema the invariant is kept whatever the two writes
  answer.\<close>

lemma setAsDefault_trigger_keeps_invariant:
  assumes "distinct (map ai_id rows)" and "at_most_one_default rows"
  shows "at_most_one_default (snd (setAsDefault True wr_clear wr_set ident rows))"
proof (cases "write_ok wr_clear")
  case True
  then show ?thesis
    using setAsDefault_after_clear [OF assms(1)] by (simp add: at_most_one_default_def)
next
  case False
  show ?thesis
  proof (cases "write_ok wr_set \<and> ident \<in> ai_id ` set rows")
    case True
    then show ?thesis using False default_models_set_trigger [OF assms(1)]
      by (simp add: setAsDefault_def clearDefaultModels_def at_most_one_default_def)
  next
    case False
    then show ?thesis using \<open>\<not> write_ok wr_clear\<close> assms(2)
      by (auto simp: setAsDefault_def clearDefaultModels_def at_most_one_default_def
            default_models_set_no_id)
  qed
qed


section \<open>The completion without a model\<close>

text \<open>
  C5. For every prompt, when no model id is given and no configuration is flagged as
  default (in particular when there is no configuration), \<open>generateCompletion\<close> fails with
  \<open>NoModelConfigured\<close> and leaves the world as it was: no request is sent.
\<close>

theorem generateCompletion_no_model:
  assumes "no_model_id modelId" and "default_models (ai_models w) = []"
  shows "generateCompletion env w prompt modelId context papers = (Inl NoModelConfigured, w)"
  using assms
  by (auto simp: generateCompletion_def resolve_model_def getDefaultModel_def maybeSingle_def
        no_model_id_def default_models_def split: option.splits)

theorem generateCompletion_no_model_witness:
  "no_model_id None \<and> default_models (ai_models \<lparr>ai_models = [], sent = []\<rparr>) = [] \<and>
   generateCompletion offline_env \<lparr>ai_models = [], sent = []\<rparr> ''What is new?'' None None None =
     (Inl NoModelConfigured, \<lparr>ai_models = [], sent = []\<rparr>)"
  using generateCompletion_no_model
    [of None "\<lparr>ai_models = [], sent = []\<rparr>" offline_env "''What is new?''" None None]
  by (simp add: no_model_id_def default_models_def)


section \<open>The API key of the crawler\<close>

text \<open>
  C10. \<open>getApiKey\<close> never fails and never answers the empty string: it answers the cached
  key when one is cached, and otherwise, when the lookup rejects, reports an error or
  yields no key, the built-in default key.
\<close>

theorem getApiKey_total:
  "(\<exists>k. fst (getApiKey lookup cachedApiKey) = Inr k \<and> k \<noteq> []) \<and>
   (key_cached cachedApiKey \<longrightarrow>
      getApiKey lookup cachedApiKey = (Inr (the cachedApiKey), cachedApiKey)) \<and>
   (\<not> key_cached cachedApiKey \<and> \<not> lookup_has_key lookup \<longrightarrow>
      getApiKey lookup cachedApiKey = (Inr DEFAULT_API_KEY, cachedApiKey))"
  by (auto simp: getApiKey_def getApiKey_try_def key_cached_def lookup_has_key_def
        DEFAULT_API_KEY_def split: option.splits key_lookup.splits)

theorem getApiKey_total_witness:
  "key_cached (Some ''fc-user'') \<and>
   getApiKey (Lookup_error ''offline'') (Some ''fc-user'') = (Inr ''fc-user'', Some ''fc-user'') \<and>
   \<not> key_cached None \<and> \<not> lookup_has_key (Lookup_error ''no rows'') \<and>
   getApiKey (Lookup_error ''no rows'') None = (Inr DEFAULT_API_KEY, None)"
  using getApiKey_total [of "Lookup_error ''offline''" "Some ''fc-user''"]
    getApiKey_total [of "Lookup_error ''no rows''" None]
  by (simp add: key_cached_def lookup_has_key_def)



section \<open>The prompt for context records\<close>

lemma join_member_split: "x \<in> set xs \<Longrightarrow> \<exists>pre post. join sep xs = pre @ x @ post"
proof (induction sep xs rule: join.induct)
  case (1 sep)
  then show ?case by simp
next
  case (2 sep y)
  then have "join sep [y] = [] @ x @ []" by simp
  then show ?case by blast
next
  case (3 sep y z zs)
  show ?case
  proof (cases "x = y")
    case True
    then have "join sep (y # z # zs) = [] @ x @ (sep @ join sep (z # zs))" by simp
    then show ?thesis by blast
  next
    case False
    then have "x \<in> set (z # zs)" using 3 by simp
    then obtain pre post where "join sep (z # zs) = pre @ x @ post"
      using "3.IH" by blast
    then have "join sep (y # z # zs) = (y @ sep @ pre) @ x @ post" by simp
    then show ?thesis by blast
  qed
qed

lemma papers_prompt_title:
  assumes "p \<in> set papers"
  shows "\<exists>pre post. papers_prompt prompt papers =
           papers_intro @ pre @ ''Title: '' @ paper_name p @ ''\<newline>'' @ post @
           papers_question @ prompt @ papers_instruction"
proof -
  obtain i where i: "i < length papers" "papers ! i = p"
    using assms by (auto simp: in_set_conv_nth)
  then have "enumerate 0 papers ! i = (i, p)"
    by (simp add: nth_enumerate_eq)
  then have "(i, p) \<in> set (enumerate 0 papers)"
    using i(1) by (metis length_enumerate nth_mem)
  then have "paper_block i p \<in> set (map (\<lambda>(index, p). paper_block index p) (enumerate 0 papers))"
    by force
  then obtain pre post where
    j: "join ''\<newline>'' (map (\<lambda>(index, p). paper_block index p) (enumerate 0 papers)) =
        pre @ paper_block i p @ post"
    using join_member_split by blast
  obtain a b where b: "paper_block i p = a @ ''Title: '' @ paper_name p @ ''\<newline>'' @ b"
    unfolding paper_block_def by (metis append_assoc)
  have "papers_prompt prompt papers =
          papers_intro @ (pre @ a) @ ''Title: '' @ paper_name p @ ''\<newline>'' @ (b @ post) @
          papers_question @ prompt @ papers_instruction"
    by (simp add: papers_prompt_def j b)
  then show ?thesis by blast
qed

lemma papers_instruction_literal:
  "\<exists>pre. papers_instruction = pre @ insufficient_instruction"
proof -
  have "papers_instruction = ''\<newline>\<newline>Your response should be clear, factual, and directly reference the papers when appropriate. '' @ insufficient_instruction"
    by (simp add: papers_instruction_def insufficient_instruction_def)
  then show ?thesis by blast
qed

lemma chat_completion_sent:
  "sent (snd (chat_completion env w model base content)) =
     sent w @ [chat_request model base content]"
  by (auto simp: chat_completion_def Let_def
        split: fetch_outcome.splits response_json.splits option.splits list.splits)

lemma generateCompletion_sent:
  "sent (snd (generateCompletion env w prompt modelId context papers)) = sent w \<or>
   (\<exists>req. sent (snd (generateCompletion env w prompt modelId context papers)) = sent w @ [req] \<and>
          req_messages req = [(''user'', promptContent prompt context papers)])"
  by (auto simp: generateCompletion_def generateSiliconFlowCompletion_def
        generateOpenRouterCompletion_def chat_completion_sent chat_request_def Let_def
        split: option.splits)

text \<open>
  C7. For every call to \<open>generateCompletion\<close> with a non-empty list of context records,
  the prompt is the research-assistant template, whatever the free-text context is: it
  holds the title line of every record, then the caller's prompt, and it ends with the
  literal instruction to state clearly when the papers do not contain the information.
  A request that the call sends carries this prompt as its only message.
\<close>

theorem generateCompletion_papers_prompt:
  assumes "papers \<noteq> []"
  shows "promptContent prompt context (Some papers) = papers_prompt prompt papers \<and>
         (\<forall>p \<in> set papers. \<exists>pre post. papers_prompt prompt papers =
             papers_intro @ pre @ ''Title: '' @ paper_name p @ ''\<newline>'' @ post @
             papers_question @ prompt @ papers_instruction) \<and>
         (\<exists>pre. papers_prompt prompt papers = pre @ insufficient_instruction) \<and>
         (sent (snd (generateCompletion env w prompt modelId context (Some papers))) = sent w \<or>
          (\<exists>req. sent (snd (generateCompletion env w prompt modelId context (Some papers))) =
                   sent w @ [req] \<and>
                 req_messages req = [(''user'', papers_prompt prompt papers)]))"
proof -
  have pc: "promptContent prompt context (Some papers) = papers_prompt prompt papers"
    using assms by (simp add: promptContent_def)
  have instr: "\<exists>pre. papers_prompt prompt papers = pre @ insufficient_instruction"
  proof -
    obtain pre where "papers_instruction = pre @ insufficient_instruction"
      using papers_instruction_literal by blast
    then have "papers_prompt prompt papers =
        (papers_intro @ join ''\<newline>'' (map (\<lambda>(index, p). paper_block index p) (enumerate 0 papers)) @
         papers_question @ prompt @ pre) @ insufficient_instruction"
      by (simp add: papers_prompt_def)
    then show ?thesis by blast
  qed
  show ?thesis
    using pc papers_prompt_title instr
      generateCompletion_sent [of env w prompt modelId "context" "Some papers"]
    by simp
qed



text \<open>Three records, a question and a free-text context, with a default model whose
  provider cannot be reached: the one request sent carries the template.\<close>

theorem generateCompletion_papers_prompt_witness:
  "sample_papers \<noteq> [] \<and>
   promptContent ''Which paper is the newest?'' (Some ''notes'') (Some sample_papers) =
     papers_prompt ''Which paper is the newest?'' sample_papers \<and>
   str_includes (papers_prompt ''Which paper is the newest?'' sample_papers) ''Title: Paper One'' \<and>
   str_includes (papers_prompt ''Which paper is the newest?'' sample_papers) ''Title: Paper Two'' \<and>
   str_includes (papers_prompt ''Which paper is the newest?'' sample_papers) ''Title: Paper Three'' \<and>
   str_includes (papers_prompt ''Which paper is the newest?'' sample_papers)
     insufficient_instruction \<and>
   map req_messages
     (sent (snd (generateCompletion offline_env \<lparr>ai_models = [sample_model ''a'' True], sent = []\<rparr>
        ''Which paper is the newest?'' None (Some ''notes'') (Some sample_papers)))) =
     [[(''user'', papers_prompt ''Which paper is the newest?'' sample_papers)]]"
proof -
  let ?q = "''Which paper is the newest?''"
  let ?w = "\<lparr>ai_models = [sample_model ''a'' True], sent = []\<rparr>"
  let ?run = "generateCompletion offline_env ?w ?q None (Some ''notes'') (Some sample_papers)"
  have ne: "sample_papers \<noteq> []"
    by (simp add: sample_papers_def)
  note inst = generateCompletion_papers_prompt
    [OF ne, of ?q "Some ''notes''" offline_env ?w None]
  have pc: "promptContent ?q (Some ''notes'') (Some sample_papers) = papers_prompt ?q sample_papers"
    using inst by (elim conjE)
  have titles: "str_includes (papers_prompt ?q sample_papers) (''Title: '' @ paper_name p)"
    if "p \<in> set sample_papers" for p
  proof -
    from inst
    have "\<forall>p \<in> set sample_papers. \<exists>pre post. papers_prompt ?q sample_papers =
             papers_intro @ pre @ ''Title: '' @ paper_name p @ ''\<newline>'' @ post @
             papers_question @ ?q @ papers_instruction"
      by (elim conjE)
    then have "\<exists>pre post. papers_prompt ?q sample_papers =
        papers_intro @ pre @ ''Title: '' @ paper_name p @ ''\<newline>'' @ post @
        papers_question @ ?q @ papers_instruction"
      using that by (rule bspec)
    then obtain pre post where "papers_prompt ?q sample_papers =
        papers_intro @ pre @ ''Title: '' @ paper_name p @ ''\<newline>'' @ post @
        papers_question @ ?q @ papers_instruction"
      by (elim exE)
    then have eq: "papers_prompt ?q sample_papers =
        (papers_intro @ pre) @ (''Title: '' @ paper_name p) @
        (''\<newline>'' @ post @ papers_question @ ?q @ papers_instruction)"
      by simp
    show ?thesis
      unfolding str_includes_def eq by (rule sublist_appendI)
  qed
  have t1: "str_includes (papers_prompt ?q sample_papers) ''Title: Paper One''"
    using titles [of "sample_papers ! 0"] by (simp add: sample_papers_def)
  have t2: "str_includes (papers_prompt ?q sample_papers) ''Title: Paper Two''"
    using titles [of "sample_papers ! 1"] by (simp add: sample_papers_def)
  have t3: "str_includes (papers_prompt ?q sample_papers) ''Title: Paper Three''"
    using titles [of "sample_papers ! 2"] by (simp add: sample_papers_def)
  have instr: "str_includes (papers_prompt ?q sample_papers) insufficient_instruction"
  proof -
    from inst have "\<exists>pre. papers_prompt ?q sample_papers = pre @ insufficient_instruction"
      by (elim conjE)
    then obtain pre where eq: "papers_prompt ?q sample_papers = pre @ insufficient_instruction"
      by (elim exE)
    show ?thesis
      unfolding str_includes_def eq by (rule sublist_append_leftI)
  qed
  have one_sent: "length (sent (snd ?run)) = 1"
    by (simp add: generateCompletion_def resolve_model_def getDefaultModel_def maybeSingle_def
          sample_model_def generateSiliconFlowCompletion_def chat_completion_sent offline_env_def)
  from inst have "sent (snd ?run) = sent ?w \<or>
      (\<exists>req. sent (snd ?run) = sent ?w @ [req] \<and>
             req_messages req = [(''user'', papers_prompt ?q sample_papers)])"
    by (elim conjE)
  then have req: "map req_messages (sent (snd ?run)) =
      [[(''user'', papers_prompt ?q sample_papers)]]"
  proof
    assume "sent (snd ?run) = sent ?w"
    then show ?thesis using one_sent by simp
  next
    assume "\<exists>req. sent (snd ?run) = sent ?w @ [req] \<and>
             req_messages req = [(''user'', papers_prompt ?q sample_papers)]"
    then obtain req where "sent (snd ?run) = sent ?w @ [req]"
      "req_messages req = [(''user'', papers_prompt ?q sample_papers)]"
      by (elim exE conjE)
    then show ?thesis by simp
  qed
  show ?thesis
    by (intro conjI ne pc t1 t2 t3 instr req)
qed


section \<open>The persisted record\<close>

lemma analyzeWithAI_cases:
  "(\<exists>w'. analyzeWithAI rt gen w markdown = (Inr (fallback_record rt markdown), w') \<and>
         structured_response rt gen w markdown = Map.empty) \<or>
   (\<exists>m c w'. analyzeWithAI rt gen w markdown = (Inr (merge_result m c markdown), w') \<and>
         structured_response rt gen w markdown = m ++ c)"
proof (cases "gen w (initialPrompt (slice0 3000 markdown))")
  case (Pair a w1)
  show ?thesis
  proof (cases a)
    case (Inl e)
    then show ?thesis using Pair
      by (simp add: analyzeWithAI_def analyzeWithAI_try_def structured_response_def Let_def)
  next
    case (Inr mr)
    show ?thesis
    proof (cases "gen w1 (contentPrompt (slice0 6000 markdown))")
      case (Pair b w2)
      note second = this
      show ?thesis
      proof (cases b)
        case (Inl e)
        then show ?thesis using \<open>gen w (initialPrompt (slice0 3000 markdown)) = (a, w1)\<close> Inr second
          by (simp add: analyzeWithAI_def analyzeWithAI_try_def structured_response_def Let_def)
      next
        case (Inr cr)
        have "analyzeWithAI rt gen w markdown =
                (Inr (merge_result (parse_partial rt mr) (parse_partial rt cr) markdown), w2)"
          and "structured_response rt gen w markdown = parse_partial rt mr ++ parse_partial rt cr"
          using \<open>gen w (initialPrompt (slice0 3000 markdown)) = (a, w1)\<close> \<open>a = Inr mr\<close> second Inr
          by (simp_all add: analyzeWithAI_def analyzeWithAI_try_def structured_response_def Let_def)
        then show ?thesis by blast
      qed
    qed
  qed
qed




lemma js_or_None: "v = None \<Longrightarrow> js_or v x = x"
  by (simp add: js_or_def)

lemma analyzeWithAI_response:
  "\<exists>r w'. analyzeWithAI rt gen w markdown = (Inr r, w') \<and>
     (\<forall>k. extra_key k \<longrightarrow> r k = structured_response rt gen w markdown k) \<and>
     (structured_response rt gen w markdown ''title'' = None \<longrightarrow>
        (\<forall>x. js_or (r ''title'') x = x)) \<and>
     (structured_response rt gen w markdown ''authors'' = None \<longrightarrow>
        js_or (r ''authors'') (JStr ''Unknown'') = JStr ''Unknown'')"
proof -
  consider
    (fallback) w' where "analyzeWithAI rt gen w markdown = (Inr (fallback_record rt markdown), w')"
      "structured_response rt gen w markdown = Map.empty"
  | (merged) m c w' where "analyzeWithAI rt gen w markdown = (Inr (merge_result m c markdown), w')"
      "structured_response rt gen w markdown = m ++ c"
    using analyzeWithAI_cases [of rt gen w markdown] by blast
  then show ?thesis
  proof cases
    case fallback
    have "\<forall>k. extra_key k \<longrightarrow> fallback_record rt markdown k = None"
      by (simp add: fallback_record_def extra_key_def)
    moreover have "\<forall>x. js_or (fallback_record rt markdown ''title'') x = x"
      by (simp add: fallback_record_def js_or_def)
    moreover have "js_or (fallback_record rt markdown ''authors'') (JStr ''Unknown'') =
                   JStr ''Unknown''"
      by (simp add: fallback_record_def js_or_def)
    ultimately show ?thesis using fallback by simp
  next
    case merged
    have "\<forall>k. extra_key k \<longrightarrow> merge_result m c markdown k = (m ++ c) k"
      by (simp add: merge_result_def extra_key_def)
    moreover have t: "merge_result m c markdown ''title'' = (m ++ c) ''title''"
      and a: "merge_result m c markdown ''authors'' = (m ++ c) ''authors''"
      by (simp_all add: merge_result_def)
    moreover have "(m ++ c) ''title'' = None \<longrightarrow>
        (\<forall>x. js_or (merge_result m c markdown ''title'') x = x)"
      unfolding t by (intro impI allI) (erule js_or_None)
    moreover have "(m ++ c) ''authors'' = None \<longrightarrow>
        js_or (merge_result m c markdown ''authors'') (JStr ''Unknown'') = JStr ''Unknown''"
      unfolding a by (intro impI) (erule js_or_None)
    ultimately show ?thesis unfolding merged by blast
  qed
qed

lemma js_or_not_null: "js_or x (JStr s) \<noteq> JNull"
  by (cases x) (auto simp: js_or_def)

lemma processPDF_fields:
  assumes "extractTextFromPDF (file_pdf file) = Inr text"
  shows "\<exists>d w'. processPDF rt gen w file = (Inr d, w') \<and>
     (\<forall>k. extra_key k \<longrightarrow> d k = structured_response rt gen w (convertTextToMarkdown text) k) \<and>
     (structured_response rt gen w (convertTextToMarkdown text) ''title'' = None \<longrightarrow>
        d ''title'' = Some (JStr (strip_pdf_suffix (file_name file)))) \<and>
     (structured_response rt gen w (convertTextToMarkdown text) ''authors'' = None \<longrightarrow>
        d ''authors'' = Some (JStr ''Unknown'')) \<and>
     d ''year'' = Some (JNum (getFullYear rt)) \<and>
     (\<exists>v. d ''title'' = Some v \<and> v \<noteq> JNull) \<and>
     (\<exists>v. d ''authors'' = Some v \<and> v \<noteq> JNull)"
proof -
  let ?md = "convertTextToMarkdown text"
  let ?resp = "structured_response rt gen w ?md"
  from analyzeWithAI_response [of rt gen w ?md]
  obtain r w' where all: "analyzeWithAI rt gen w ?md = (Inr r, w') \<and>
     (\<forall>k. extra_key k \<longrightarrow> r k = ?resp k) \<and>
     (?resp ''title'' = None \<longrightarrow> (\<forall>x. js_or (r ''title'') x = x)) \<and>
     (?resp ''authors'' = None \<longrightarrow> js_or (r ''authors'') (JStr ''Unknown'') = JStr ''Unknown'')"
    by (elim exE)
  define d where "d = r(''title'' \<mapsto> js_or (r ''title'') (JStr (strip_pdf_suffix (file_name file))),
       ''authors'' \<mapsto> js_or (r ''authors'') (JStr ''Unknown''),
       ''year'' \<mapsto> JNum (getFullYear rt),
       ''full_text'' \<mapsto> JStr ?md)"
  have p: "processPDF rt gen w file = (Inr d, w')"
    using all by (simp add: processPDF_def assms Let_def d_def)
  have dt: "d ''title'' = Some (js_or (r ''title'') (JStr (strip_pdf_suffix (file_name file))))"
    and da: "d ''authors'' = Some (js_or (r ''authors'') (JStr ''Unknown''))"
    and dy: "d ''year'' = Some (JNum (getFullYear rt))"
    by (simp_all add: d_def)
  have dk: "\<forall>k. extra_key k \<longrightarrow> d k = ?resp k"
    using all by (simp add: d_def extra_key_def)
  have t: "?resp ''title'' = None \<longrightarrow> d ''title'' = Some (JStr (strip_pdf_suffix (file_name file)))"
    using all by (simp add: dt)
  have a: "?resp ''authors'' = None \<longrightarrow> d ''authors'' = Some (JStr ''Unknown'')"
    using all by (simp add: da)
  have tv: "\<exists>v. d ''title'' = Some v \<and> v \<noteq> JNull"
    by (simp add: dt js_or_not_null)
  have av: "\<exists>v. d ''authors'' = Some v \<and> v \<noteq> JNull"
    by (simp add: da js_or_not_null)
  show ?thesis
    by (intro exI [of _ d] exI [of _ w'] conjI p dk t a dy tv av)
qed


lemma sanitizeText_None: "sanitizeText rt None = None"
  by (simp add: sanitizeText_def)

lemma sanitizeText_not_null: "v \<noteq> JNull \<Longrightarrow> sanitizeText rt (Some v) \<noteq> None"
  by (cases v) (simp_all add: sanitizeText_def del: js_String.simps)

lemma sanitizeText_Unknown:
  assumes "normalize_NFKD rt ''Unknown'' = ''Unknown''"
  shows "sanitizeText rt (Some (JStr ''Unknown'')) = Some ''Unknown''"
proof -
  have clean: "filter (\<lambda>c. \<not> is_control_char c) (remove_unicode_escapes ''Unknown'') = ''Unknown''"
    by code_simp
  have trimmed: "trim ''Unknown'' = ''Unknown''"
    by code_simp
  show ?thesis
    by (simp add: sanitizeText_def clean assms trimmed)
qed

text \<open>The file name is sanitised like every other text: the stem of \<open> a .pdf\<close> is
  persisted without its blanks.\<close>

lemma sanitized_stem_example:
  "strip_pdf_suffix '' a .pdf'' = '' a '' \<and>
   sanitizeText sample_runtime (Some (JStr (strip_pdf_suffix '' a .pdf''))) = Some ''a''"
  by code_simp

text \<open>
  C3 (as amended). For every run of the pipeline on a file whose text was extracted, each
  of the fields \<open>doi\<close>, \<open>background\<close>, \<open>research_question\<close>, \<open>major_findings\<close> and
  \<open>suggestions\<close> that is absent from the structured response of the model is \<open>null\<close> in
  the row that is persisted. An absent title is persisted as what \<open>sanitizeText\<close> makes
  of the file name without its \<open>.pdf\<close> suffix, absent authors as what \<open>sanitizeText\<close>
  makes of \<open>Unknown\<close>, which is \<open>Unknown\<close> itself whenever NFKD leaves that word as it
  is, and an absent year as the current year; title and authors of the row are never
  \<open>null\<close>.
\<close>

theorem persisted_absent_fields:
  assumes "extractTextFromPDF (file_pdf (uf_file fileObj)) = Inr text"
  shows "let response = structured_response rt gen w (convertTextToMarkdown text);
             row = upload_row rt fileObj (fst (view_processPDF rt gen w fileObj))
         in (response ''doi'' = None \<longrightarrow> row_doi row = None) \<and>
            (response ''background'' = None \<longrightarrow> row_background row = None) \<and>
            (response ''research_question'' = None \<longrightarrow> row_research_question row = None) \<and>
            (response ''major_findings'' = None \<longrightarrow> row_major_findings row = None) \<and>
            (response ''suggestions'' = None \<longrightarrow> row_suggestions row = None) \<and>
            (response ''title'' = None \<longrightarrow>
               row_title row =
                 sanitizeText rt (Some (JStr (strip_pdf_suffix (file_name (uf_file fileObj)))))) \<and>
            (response ''authors'' = None \<longrightarrow>
               row_authors row = sanitizeText rt (Some (JStr ''Unknown''))) \<and>
            (response ''year'' = None \<longrightarrow> row_year row = JNum (getFullYear rt)) \<and>
            row_title row \<noteq> None \<and> row_authors row \<noteq> None \<and>
            (response ''authors'' = None \<longrightarrow> normalize_NFKD rt ''Unknown'' = ''Unknown'' \<longrightarrow>
               row_authors row = Some ''Unknown'')"
proof -
  let ?resp = "structured_response rt gen w (convertTextToMarkdown text)"
  from processPDF_fields [OF assms, of rt gen w]
  obtain d w' where all: "processPDF rt gen w (uf_file fileObj) = (Inr d, w') \<and>
     (\<forall>k. extra_key k \<longrightarrow> d k = ?resp k) \<and>
     (?resp ''title'' = None \<longrightarrow>
        d ''title'' = Some (JStr (strip_pdf_suffix (file_name (uf_file fileObj))))) \<and>
     (?resp ''authors'' = None \<longrightarrow> d ''authors'' = Some (JStr ''Unknown'')) \<and>
     d ''year'' = Some (JNum (getFullYear rt)) \<and>
     (\<exists>v. d ''title'' = Some v \<and> v \<noteq> JNull) \<and>
     (\<exists>v. d ''authors'' = Some v \<and> v \<noteq> JNull)"
    by (elim exE)
  then have p: "processPDF rt gen w (uf_file fileObj) = (Inr d, w')"
    and extra: "\<forall>k. extra_key k \<longrightarrow> d k = ?resp k"
    and title: "?resp ''title'' = None \<longrightarrow>
        d ''title'' = Some (JStr (strip_pdf_suffix (file_name (uf_file fileObj))))"
    and authors: "?resp ''authors'' = None \<longrightarrow> d ''authors'' = Some (JStr ''Unknown'')"
    and year: "d ''year'' = Some (JNum (getFullYear rt))"
    and tv: "\<exists>v. d ''title'' = Some v \<and> v \<noteq> JNull"
    and av: "\<exists>v. d ''authors'' = Some v \<and> v \<noteq> JNull"
    by simp_all
  have data: "uf_extractedData (fst (view_processPDF rt gen w fileObj)) = Some d"
    by (simp add: view_processPDF_def p Let_def)
  have k5: "extra_key ''doi''" "extra_key ''background''" "extra_key ''research_question''"
    "extra_key ''major_findings''" "extra_key ''suggestions''"
    by (simp_all add: extra_key_def)
  have fields: "d ''doi'' = ?resp ''doi''" "d ''background'' = ?resp ''background''"
    "d ''research_question'' = ?resp ''research_question''"
    "d ''major_findings'' = ?resp ''major_findings''"
    "d ''suggestions'' = ?resp ''suggestions''"
    using extra k5 by simp_all
  let ?row = "upload_row rt fileObj (fst (view_processPDF rt gen w fileObj))"
  have r5: "row_doi ?row = sanitizeText rt (?resp ''doi'')"
    "row_background ?row = sanitizeText rt (?resp ''background'')"
    "row_research_question ?row = sanitizeText rt (?resp ''research_question'')"
    "row_major_findings ?row = sanitizeText rt (?resp ''major_findings'')"
    "row_suggestions ?row = sanitizeText rt (?resp ''suggestions'')"
    by (simp_all add: upload_row_def data extracted_field_def fields Let_def)
  have rt: "row_title ?row = sanitizeText rt (d ''title'')"
    and ra: "row_authors ?row = sanitizeText rt (d ''authors'')"
    by (simp_all add: upload_row_def data extracted_field_def Let_def)
  have yr: "row_year ?row = JNum (getFullYear rt)"
    by (simp add: upload_row_def data extracted_field_def year js_or_def Let_def)
  have t: "row_title ?row \<noteq> None"
  proof -
    obtain v where "d ''title'' = Some v" "v \<noteq> JNull"
      using tv by (elim exE conjE)
    then show ?thesis by (simp add: rt sanitizeText_not_null)
  qed
  have a: "row_authors ?row \<noteq> None"
  proof -
    obtain v where "d ''authors'' = Some v" "v \<noteq> JNull"
      using av by (elim exE conjE)
    then show ?thesis by (simp add: ra sanitizeText_not_null)
  qed
  have t': "?resp ''title'' = None \<longrightarrow> row_title ?row =
       sanitizeText rt (Some (JStr (strip_pdf_suffix (file_name (uf_file fileObj)))))"
    using title by (simp add: rt)
  have a': "?resp ''authors'' = None \<longrightarrow> row_authors ?row = sanitizeText rt (Some (JStr ''Unknown''))"
    using authors by (simp add: ra)
  have y': "?resp ''year'' = None \<longrightarrow> row_year ?row = JNum (getFullYear rt)"
    by (simp add: yr)
  have c1: "?resp ''doi'' = None \<longrightarrow> row_doi ?row = None"
    and c2: "?resp ''background'' = None \<longrightarrow> row_background ?row = None"
    and c3: "?resp ''research_question'' = None \<longrightarrow> row_research_question ?row = None"
    and c4: "?resp ''major_findings'' = None \<longrightarrow> row_major_findings ?row = None"
    and c5: "?resp ''suggestions'' = None \<longrightarrow> row_suggestions ?row = None"
    by (simp_all add: r5 sanitizeText_None)
  have a'': "?resp ''authors'' = None \<longrightarrow> normalize_NFKD rt ''Unknown'' = ''Unknown'' \<longrightarrow>
      row_authors ?row = Some ''Unknown''"
    using a' by (simp add: sanitizeText_Unknown)
  show ?thesis
    unfolding Let_def by (intro conjI c1 c2 c3 c4 c5 t' a' y' t a a'')
qed


lemma hello_text: "extractTextFromPDF (Inr [Inr [''Hello'']]) = Inr ''Hello''"
  by code_simp

lemma hello_markdown: "convertTextToMarkdown ''Hello'' = ''# Hello\<newline>\<newline>''"
  by code_simp

lemma sample_parse: "parse_partial sample_runtime ''{}'' = Map.empty"
  by (simp add: parse_partial_def match_braces_def sample_runtime_def)

text \<open>The file \<open>paper.pdf\<close> with the text \<open>Hello\<close>, and a model that answers \<open>{}\<close>
  twice: the row that is persisted.\<close>

theorem persisted_absent_fields_witness:
  "extractTextFromPDF (file_pdf (uf_file (sample_upload ''paper.pdf'' (Inr [Inr [''Hello'']])))) =
     Inr ''Hello'' \<and>
   structured_response sample_runtime (\<lambda>w p. (Inr ''{}'', Suc w)) 0
     (convertTextToMarkdown ''Hello'') = Map.empty \<and>
   upload_row sample_runtime (sample_upload ''paper.pdf'' (Inr [Inr [''Hello'']]))
     (fst (view_processPDF sample_runtime (\<lambda>w p. (Inr ''{}'', Suc w)) 0
            (sample_upload ''paper.pdf'' (Inr [Inr [''Hello'']])))) =
     \<lparr>row_filename = ''paper.pdf'', row_title = Some ''paper'', row_authors = Some ''Unknown'',
      row_year = JNum 2025, row_doi = None, row_background = None,
      row_research_question = None, row_major_findings = None, row_suggestions = None,
      row_full_text = Some ''# Hello''\<rparr> \<and>
   normalize_NFKD sample_runtime ''Unknown'' = ''Unknown''"
proof -
  let ?f = "sample_upload ''paper.pdf'' (Inr [Inr [''Hello'']])"
  let ?g = "\<lambda>w p. (Inr ''{}'', Suc w) :: (js_error + string) \<times> nat"
  let ?row = "upload_row sample_runtime ?f (fst (view_processPDF sample_runtime ?g 0 ?f))"
  have ext: "extractTextFromPDF (file_pdf (uf_file ?f)) = Inr ''Hello''"
    by (simp add: sample_upload_def hello_text)
  have resp: "structured_response sample_runtime ?g 0 (convertTextToMarkdown ''Hello'') = Map.empty"
    by (simp add: structured_response_def sample_parse)
  have name: "file_name (uf_file ?f) = ''paper.pdf''"
    by (simp add: sample_upload_def)
  have stem: "strip_pdf_suffix ''paper.pdf'' = ''paper''"
    by code_simp
  have san: "sanitizeText sample_runtime (Some (JStr ''paper'')) = Some ''paper''"
    "sanitizeText sample_runtime (Some (JStr ''Unknown'')) = Some ''Unknown''"
    "sanitizeText sample_runtime (Some (JStr ''# Hello\<newline>\<newline>'')) = Some ''# Hello''"
    by code_simp+
  have yr: "getFullYear sample_runtime = 2025"
    by (simp add: sample_runtime_def)
  have fields: "row_doi ?row = None \<and> row_background ?row = None \<and>
      row_research_question ?row = None \<and> row_major_findings ?row = None \<and>
      row_suggestions ?row = None \<and> row_title ?row = Some ''paper'' \<and>
      row_authors ?row = Some ''Unknown'' \<and> row_year ?row = JNum 2025"
    using persisted_absent_fields [OF ext, of sample_runtime ?g 0]
    by (simp add: Let_def resp name stem san yr)
  have fname: "row_filename ?row = ''paper.pdf''"
    by (simp add: upload_row_def name Let_def)
  have an: "analyzeWithAI sample_runtime ?g 0 ''# Hello\<newline>\<newline>'' =
          (Inr [''full_text'' \<mapsto> JStr ''# Hello\<newline>\<newline>''], 2)"
    by (simp add: analyzeWithAI_def analyzeWithAI_try_def Let_def sample_parse merge_result_def)
  have full: "row_full_text ?row = Some ''# Hello''"
    by (simp add: upload_row_def view_processPDF_def sample_upload_def processPDF_def hello_text
          hello_markdown an extracted_field_def san Let_def)
  have "?row = \<lparr>row_filename = row_filename ?row, row_title = row_title ?row,
      row_authors = row_authors ?row, row_year = row_year ?row, row_doi = row_doi ?row,
      row_background = row_background ?row,
      row_research_question = row_research_question ?row,
      row_major_findings = row_major_findings ?row, row_suggestions = row_suggestions ?row,
      row_full_text = row_full_text ?row\<rparr>"
    by simp
  then have "?row = \<lparr>row_filename = ''paper.pdf'', row_title = Some ''paper'',
      row_authors = Some ''Unknown'', row_year = JNum 2025, row_doi = None,
      row_background = None, row_research_question = None, row_major_findings = None,
      row_suggestions = None, row_full_text = Some ''# Hello''\<rparr>"
    using fields fname full by simp
  moreover have "normalize_NFKD sample_runtime ''Unknown'' = ''Unknown''"
    by (simp add: sample_runtime_def)
  ultimately show ?thesis using ext resp by (intro conjI)
qed

text \<open>C3 as stated fails: the model answers \<open>{}\<close> twice for the file \<open>paper.pdf\<close>, so the
  title is absent from its response, and the row that is persisted has the title
  \<open>paper\<close>.\<close>

theorem absent_title_filled:
  "structured_response sample_runtime (\<lambda>w p. (Inr ''{}'', Suc w)) 0
     (convertTextToMarkdown ''Hello'') ''title'' = None \<and>
   row_title (upload_row sample_runtime (sample_upload ''paper.pdf'' (Inr [Inr [''Hello'']]))
     (fst (view_processPDF sample_runtime (\<lambda>w p. (Inr ''{}'', Suc w)) 0
            (sample_upload ''paper.pdf'' (Inr [Inr [''Hello'']]))))) = Some ''paper''"
proof -
  have pp: "parse_partial sample_runtime ''{}'' = Map.empty"
    by (simp add: parse_partial_def match_braces_def sample_runtime_def)
  have stem: "strip_pdf_suffix ''paper.pdf'' = ''paper''"
    by code_simp
  have san: "sanitizeText sample_runtime (Some (JStr ''paper'')) = Some ''paper''"
    by code_simp
  have resp: "structured_response sample_runtime (\<lambda>w p. (Inr ''{}'', Suc w)) 0
     (convertTextToMarkdown ''Hello'') ''title'' = None"
    by (simp add: structured_response_def pp)
  have an: "analyzeWithAI sample_runtime (\<lambda>w p. (Inr ''{}'', Suc w)) 0 ''# Hello\<newline>\<newline>'' =
          (Inr [''full_text'' \<mapsto> JStr ''# Hello\<newline>\<newline>''], 2)"
    by (simp add: analyzeWithAI_def analyzeWithAI_try_def Let_def pp merge_result_def)
  have pr: "processPDF sample_runtime (\<lambda>w p. (Inr ''{}'', Suc w)) 0
              \<lparr>file_name = ''paper.pdf'', file_pdf = Inr [Inr [''Hello'']]\<rparr> =
            (Inr ([''full_text'' \<mapsto> JStr ''# Hello\<newline>\<newline>'']
                  (''title'' \<mapsto> JStr ''paper'', ''authors'' \<mapsto> JStr ''Unknown'',
                   ''year'' \<mapsto> JNum 2025,
                   ''full_text'' \<mapsto> JStr ''# Hello\<newline>\<newline>'')), 2)"
    by (simp add: processPDF_def hello_text hello_markdown an js_or_def stem Let_def)
      (simp add: sample_runtime_def)
  have "row_title (upload_row sample_runtime (sample_upload ''paper.pdf'' (Inr [Inr [''Hello'']]))
     (fst (view_processPDF sample_runtime (\<lambda>w p. (Inr ''{}'', Suc w)) 0
            (sample_upload ''paper.pdf'' (Inr [Inr [''Hello'']]))))) =
        sanitizeText sample_runtime (Some (JStr ''paper''))"
    by (simp add: upload_row_def view_processPDF_def sample_upload_def pr extracted_field_def)
  then show ?thesis using resp san by simp
qed



section \<open>The batch upload\<close>

lemma view_processPDF_settled:
  "\<exists>pf w'. view_processPDF rt gen w f = (pf, w') \<and> uf_file pf = uf_file f \<and>
     (if isl (extractTextFromPDF (file_pdf (uf_file f)))
      then uf_processingStatus pf = Status_error \<and> uf_error pf \<noteq> None
      else uf_processingStatus pf = Status_success \<and> uf_extractedData pf \<noteq> None)"
proof (cases "extractTextFromPDF (file_pdf (uf_file f))")
  case no_text: (Inl e)
  have "view_processPDF rt gen w f =
          (f\<lparr>uf_processingStatus := Status_error, uf_processingProgress := 0,
             uf_error := Some (if message e \<noteq> [] then message e
                               else ''Failed to process PDF'')\<rparr>, w)"
    by (simp add: view_processPDF_def processPDF_def no_text)
  then show ?thesis by (simp add: no_text)
next
  case extracted: (Inr body)
  obtain d w' where "processPDF rt gen w (uf_file f) = (Inr d, w')"
    using processPDF_fields [OF extracted, of rt gen w] by (elim exE conjE)
  then have "view_processPDF rt gen w f =
          (f\<lparr>uf_processingStatus := Status_success, uf_processingProgress := 100,
             uf_extractedData := Some d\<rparr>, w')"
    by (simp add: view_processPDF_def)
  then show ?thesis by (simp add: extracted)
qed


lemma upload_file_step_settled:
  assumes "i < length ufs"
  shows "case upload_file_step rt gen batchId files outs i (ufs, db, w) of
           (ufs', db', w') \<Rightarrow>
             ufs' = ufs[i := ufs' ! i] \<and>
             set (pdf_uploads db) \<subseteq> set (pdf_uploads db') \<and>
             set (batch_pdfs db) \<subseteq> set (batch_pdfs db') \<and>
             file_settled rt batchId db' (files ! i) (ufs' ! i) (outs ! i)"
proof -
  let ?f1 = "(files ! i)\<lparr>uf_uploading := False, uf_processingStatus := Status_pending,
                           uf_processingProgress := 0\<rparr>"
  from view_processPDF_settled [of rt gen w ?f1]
  obtain pf w' where vp: "view_processPDF rt gen w ?f1 = (pf, w')"
    and st: "if isl (extractTextFromPDF (file_pdf (uf_file (files ! i))))
             then uf_processingStatus pf = Status_error \<and> uf_error pf \<noteq> None
             else uf_processingStatus pf = Status_success \<and> uf_extractedData pf \<noteq> None"
    by (elim exE conjE) simp
  show ?thesis
  proof (cases "upload_outcome (outs ! i)")
    case (Some m)
    then show ?thesis using assms
      by (simp add: upload_file_step_def upload_file_try_def file_settled_def file_fails_def)
  next
    case None
    note uploaded = this
    show ?thesis
    proof (cases "insert_outcome (outs ! i)")
      case (Insert_error m)
      then show ?thesis using assms uploaded
        by (simp add: upload_file_step_def upload_file_try_def file_settled_def file_fails_def
              vp Let_def)
    next
      case Insert_no_data
      then show ?thesis using assms uploaded
        by (simp add: upload_file_step_def upload_file_try_def file_settled_def file_fails_def
              vp Let_def)
    next
      case (Inserted pdfId)
      note inserted = this
      show ?thesis
      proof (cases "link_outcome (outs ! i)")
        case (Some m)
        then show ?thesis using assms uploaded inserted
          by (simp add: upload_file_step_def upload_file_try_def file_settled_def file_fails_def
                vp Let_def subset_iff)
      next
        case None
        then show ?thesis using assms uploaded inserted st
          by (simp add: upload_file_step_def upload_file_try_def file_settled_def file_fails_def
                persisted_def vp Let_def subset_iff)
      qed
    qed
  qed
qed


lemma file_settled_mono:
  assumes "file_settled rt batchId db f f' out"
    and "set (pdf_uploads db) \<subseteq> set (pdf_uploads db')"
    and "set (batch_pdfs db) \<subseteq> set (batch_pdfs db')"
  shows "file_settled rt batchId db' f f' out"
  using assms
  by (auto simp: file_settled_def persisted_def split: insert_outcome.splits if_splits)

lemma upload_prefix_settled:
  "n \<le> length files \<Longrightarrow>
   (case fold (upload_file_step rt gen batchId files outs) [0..<n] (files, db, w) of
      (ufs, db', w') \<Rightarrow>
        length ufs = length files \<and>
        set (pdf_uploads db) \<subseteq> set (pdf_uploads db') \<and>
        set (batch_pdfs db) \<subseteq> set (batch_pdfs db') \<and>
        (\<forall>i<n. file_settled rt batchId db' (files ! i) (ufs ! i) (outs ! i)))"
proof (induction n)
  case 0
  then show ?case by simp
next
  case (Suc n)
  obtain ufs db1 w1 where before:
    "fold (upload_file_step rt gen batchId files outs) [0..<n] (files, db, w) = (ufs, db1, w1)"
    by (cases "fold (upload_file_step rt gen batchId files outs) [0..<n] (files, db, w)")
  have len: "length ufs = length files"
    and sub1: "set (pdf_uploads db) \<subseteq> set (pdf_uploads db1)"
      "set (batch_pdfs db) \<subseteq> set (batch_pdfs db1)"
    and earlier: "\<forall>i<n. file_settled rt batchId db1 (files ! i) (ufs ! i) (outs ! i)"
    using Suc before by simp_all
  obtain ufs' db2 w2 where step:
    "upload_file_step rt gen batchId files outs n (ufs, db1, w1) = (ufs', db2, w2)"
    by (cases "upload_file_step rt gen batchId files outs n (ufs, db1, w1)")
  have n: "n < length ufs" using Suc.prems len by simp
  have upd: "ufs' = ufs[n := ufs' ! n]"
    and sub2: "set (pdf_uploads db1) \<subseteq> set (pdf_uploads db2)"
      "set (batch_pdfs db1) \<subseteq> set (batch_pdfs db2)"
    and this_one: "file_settled rt batchId db2 (files ! n) (ufs' ! n) (outs ! n)"
    using upload_file_step_settled
        [OF n, where rt = rt and gen = gen and batchId = batchId and files = files
           and outs = outs and db = db1 and w = w1]
      step
    by simp_all
  have len': "length ufs' = length files"
    using upd len by (metis length_list_update)
  have all: "file_settled rt batchId db2 (files ! i) (ufs' ! i) (outs ! i)" if "i < Suc n" for i
  proof (cases "i = n")
    case True
    then show ?thesis using this_one by simp
  next
    case False
    then have "i < n" using that by simp
    then have "file_settled rt batchId db1 (files ! i) (ufs ! i) (outs ! i)"
      using earlier by simp
    moreover have "ufs' ! i = ufs ! i"
      using upd False by (metis nth_list_update_neq)
    ultimately show ?thesis using file_settled_mono sub2 by simp
  qed
  have "fold (upload_file_step rt gen batchId files outs) [0..<Suc n] (files, db, w) =
          (ufs', db2, w2)"
    by (simp add: before step)
  then show ?case using len' sub1 sub2 all by auto
qed

text \<open>
  C6. In a batch upload every file is handled, whatever happens to the others: a file
  that fails (its text cannot be extracted, or a call to the store for it fails) ends in
  status \<open>error\<close> with an error message of its own, and every file that does not fail
  ends in status \<open>success\<close> with its extracted data, its row in \<open>pdf_uploads\<close> and its
  link to the batch.
\<close>

theorem upload_loop_isolation:
  "case upload_loop rt gen batchId files outs (db, w) of
     (files', db', w') \<Rightarrow>
       length files' = length files \<and>
       (\<forall>i<length files.
          (file_fails (files ! i) (outs ! i) \<longrightarrow>
             uf_processingStatus (files' ! i) = Status_error \<and> uf_error (files' ! i) \<noteq> None) \<and>
          (\<not> file_fails (files ! i) (outs ! i) \<longrightarrow>
             uf_processingStatus (files' ! i) = Status_success \<and>
             uf_extractedData (files' ! i) \<noteq> None \<and>
             persisted rt batchId db' (files ! i) (files' ! i) (outs ! i)))"
  using upload_prefix_settled
      [where n = "length files" and files = files and rt = rt and gen = gen
         and batchId = batchId and outs = outs and db = db and w = w]
  by (auto simp: upload_loop_def file_settled_def split: prod.splits)

text \<open>The batch of three files: the second fails its text extraction, the first and
  the third are processed and persisted.\<close>

theorem upload_loop_isolation_witness:
  "\<not> file_fails (sample_batch ! 0) (sample_outcome ''id1'') \<and>
   file_fails (sample_batch ! 1) (sample_outcome ''id2'') \<and>
   \<not> file_fails (sample_batch ! 2) (sample_outcome ''id3'') \<and>
   (case upload_loop sample_runtime (\<lambda>w p. (Inr ''{}'', Suc w)) ''batch1'' sample_batch
           [sample_outcome ''id1'', sample_outcome ''id2'', sample_outcome ''id3'']
           (\<lparr>pdf_uploads = [], batch_pdfs = []\<rparr>, 0 :: nat) of
      (files', db', w') \<Rightarrow>
        length files' = 3 \<and>
        uf_processingStatus (files' ! 0) = Status_success \<and>
        persisted sample_runtime ''batch1'' db' (sample_batch ! 0) (files' ! 0)
          (sample_outcome ''id1'') \<and>
        uf_processingStatus (files' ! 1) = Status_error \<and>
        uf_error (files' ! 1) \<noteq> None \<and>
        uf_processingStatus (files' ! 2) = Status_success \<and>
        persisted sample_runtime ''batch1'' db' (sample_batch ! 2) (files' ! 2)
          (sample_outcome ''id3''))"
proof -
  let ?outs = "[sample_outcome ''id1'', sample_outcome ''id2'', sample_outcome ''id3'']"
  let ?g = "\<lambda>w p. (Inr ''{}'', Suc w) :: (js_error + string) \<times> nat"
  have bad: "extractTextFromPDF (Inr [Inl (Error ''Invalid page request'')]) = Inl NoTextContent"
    by (simp add: extractTextFromPDF_no_page)
  have f0: "\<not> file_fails (sample_batch ! 0) (sample_outcome ''id1'')"
    and f1: "file_fails (sample_batch ! 1) (sample_outcome ''id2'')"
    and f2: "\<not> file_fails (sample_batch ! 2) (sample_outcome ''id3'')"
    by (simp_all add: file_fails_def sample_batch_def sample_upload_def sample_outcome_def
          hello_text bad)
  have len: "length sample_batch = 3"
    by (simp add: sample_batch_def)
  obtain files' db' w' where run:
    "upload_loop sample_runtime ?g ''batch1'' sample_batch ?outs
       (\<lparr>pdf_uploads = [], batch_pdfs = []\<rparr>, 0) = (files', db', w')"
    by (cases "upload_loop sample_runtime ?g ''batch1'' sample_batch ?outs
       (\<lparr>pdf_uploads = [], batch_pdfs = []\<rparr>, 0)")
  from upload_loop_isolation
    [where rt = sample_runtime and gen = ?g and batchId = "''batch1''" and files = sample_batch
       and outs = ?outs and db = "\<lparr>pdf_uploads = [], batch_pdfs = []\<rparr>" and w = 0]
  have all: "length files' = 3 \<and>
       (\<forall>i<3.
          (file_fails (sample_batch ! i) (?outs ! i) \<longrightarrow>
             uf_processingStatus (files' ! i) = Status_error \<and> uf_error (files' ! i) \<noteq> None) \<and>
          (\<not> file_fails (sample_batch ! i) (?outs ! i) \<longrightarrow>
             uf_processingStatus (files' ! i) = Status_success \<and>
             uf_extractedData (files' ! i) \<noteq> None \<and>
             persisted sample_runtime ''batch1'' db' (sample_batch ! i) (files' ! i) (?outs ! i)))"
    unfolding run len by simp
  then have each: "\<And>i. i < 3 \<Longrightarrow>
          (file_fails (sample_batch ! i) (?outs ! i) \<longrightarrow>
             uf_processingStatus (files' ! i) = Status_error \<and> uf_error (files' ! i) \<noteq> None) \<and>
          (\<not> file_fails (sample_batch ! i) (?outs ! i) \<longrightarrow>
             uf_processingStatus (files' ! i) = Status_success \<and>
             uf_extractedData (files' ! i) \<noteq> None \<and>
             persisted sample_runtime ''batch1'' db' (sample_batch ! i) (files' ! i) (?outs ! i))"
    by (elim conjE) (rule allE, assumption, erule mp)
  have r0: "uf_processingStatus (files' ! 0) = Status_success \<and>
      persisted sample_runtime ''batch1'' db' (sample_batch ! 0) (files' ! 0) (sample_outcome ''id1'')"
    using each [of 0] f0 by simp
  have r1: "uf_processingStatus (files' ! 1) = Status_error \<and> uf_error (files' ! 1) \<noteq> None"
    using each [of 1] f1 by simp
  have r2: "uf_processingStatus (files' ! 2) = Status_success \<and>
      persisted sample_runtime ''batch1'' db' (sample_batch ! 2) (files' ! 2) (sample_outcome ''id3'')"
    using each [of 2] f2 by simp
  show ?thesis
    unfolding run using f0 f1 f2 all r0 r1 r2 by simp
qed

end
